theory Spec2Isabelle
  imports Main "HOL-Library.Sublist"
begin

text \<open>
  A model of autohost's HTTP adapter (src/http/adapter.js): how the url of an action is
  built (\<open>buildActionUrl\<close>, \<open>hasPrefix\<close>, \<open>buildActionAlias\<close>), the authorization
  check with its metrics (\<open>checkPermissionFor\<close>), the metadata of an action
  (\<open>getActionMetadata\<close>), and the route callback that \<open>wireupAction\<close> registers,
  with \<open>respond\<close>. Functions keep their names and the order of their statements. A
  function that touches the metrics, the log, the request or the response takes the
  request's world and returns it changed; an exception is the left injection of a sum.
\<close>

section \<open>JavaScript values\<close>

text \<open>
  The adapter tests handler results and permission decisions for truthiness and probes
  them for a \<open>then\<close> property, so values keep their JavaScript shape. A thenable is
  modelled by the state its promise settles to; \<open>Pending\<close> is a promise that never
  settles.
\<close>

datatype jsval =
    JUndefined
  | JNull
  | JBool bool
  | JNum int
  | JNaN
  | JStr string
  | JObject string
  | JError string
  | JThenable settled
and settled =
    Fulfilled jsval
  | Rejected jsval
  | Pending

text \<open>\<open>if ( v )\<close>: everything is truthy except false, 0, NaN, the empty string, null and undefined.\<close>

fun truthy :: "jsval \<Rightarrow> bool" where
  "truthy JUndefined = False"
| "truthy JNull = False"
| "truthy (JBool b) = b"
| "truthy (JNum n) = (n \<noteq> 0)"
| "truthy JNaN = False"
| "truthy (JStr s) = (s \<noteq> [])"
| "truthy (JObject _) = True"
| "truthy (JError _) = True"
| "truthy (JThenable _) = True"

text \<open>
  \<open>v.then\<close> read on a truthy value: only a thenable has one, and calling it attaches
  callbacks to the promise behind it.
\<close>

fun thenable :: "jsval \<Rightarrow> settled option" where
  "thenable (JThenable p) = Some p"
| "thenable _ = None"

definition hasThen :: "jsval \<Rightarrow> bool" where
  "hasThen v = (thenable v \<noteq> None)"

definition typeError :: jsval where
  "typeError = JError ''TypeError''"

text \<open>
  \<open>err.stack\<close>: reading a property of null or undefined throws a TypeError (\<open>Inl\<close>);
  an Error object carries its stack, any other value has no such property.
\<close>

fun stack :: "jsval \<Rightarrow> jsval + string" where
  "stack JUndefined = Inl typeError"
| "stack JNull = Inl typeError"
| "stack (JError s) = Inr s"
| "stack _ = Inr ''undefined''"

text \<open>
  The promise resolution procedure: resolving with a thenable adopts its state,
  resolving with anything else fulfils with that value.
\<close>

fun resolve :: "jsval \<Rightarrow> settled" where
  "resolve (JThenable (Fulfilled v)) = resolve v"
| "resolve (JThenable (Rejected e)) = Rejected e"
| "resolve (JThenable Pending) = Pending"
| "resolve v = Fulfilled v"

section \<open>Strings\<close>

text \<open>\<open>s.indexOf( t )\<close>: the index of the first occurrence of \<open>t\<close> in \<open>s\<close>, or -1.\<close>

fun indexOf :: "string \<Rightarrow> string \<Rightarrow> int" where
  "indexOf [] t = (if t = [] then 0 else - 1)"
| "indexOf (c # cs) t =
     (if prefix t (c # cs) then 0
      else (let i = indexOf cs t in if i < 0 then - 1 else i + 1))"

text \<open>\<open>s || ''\<close> on an optional string.\<close>

fun orEmpty :: "string option \<Rightarrow> string" where
  "orEmpty None = []"
| "orEmpty (Some s) = s"

fun toUpperCase :: "string \<Rightarrow> string" where
  "toUpperCase [] = []"
| "toUpperCase (c # cs) =
     (if (97::nat) \<le> of_char c \<and> of_char c \<le> (122::nat)
      then char_of (of_char c - (32::nat)) else c) # toUpperCase cs"

section \<open>Collaborators: metrics, log, response\<close>

text \<open>
  Metrics, the log and the response object are collaborators of the adapter; what the
  adapter does to them is kept as a trace. \<open>events\<close> holds the metric records, the
  envelope and handler calls and the responses sent, oldest first; \<open>logs\<close> the log
  lines. \<open>headerSent\<close> is \<open>res._headerSent\<close>, \<open>finishOnce\<close> the listeners
  registered with \<open>res.once( 'finish', ... )\<close>.
\<close>

datatype counter =
    authorizationAttempts
  | authorizationGrants
  | authorizationRejections
  | authorizationErrors

datatype timer = AuthorizationTimer | Timer "string list"

datatype event =
    CounterRecord counter nat string
  | TimerStart timer
  | TimerRecord timer string
  | NewEnvelope "string list"
  | Handle
  | HandleReturn jsval
  | Send nat string

datatype level = Debug | Error

datatype logline = Log level string "string list"

datatype listener = RecordTimer timer string

record world =
  events :: "event list"
  logs :: "logline list"
  statusCode :: nat
  headerSent :: bool
  finishOnce :: "listener list"

definition emit :: "event \<Rightarrow> world \<Rightarrow> world" where
  "emit e w = w\<lparr>events := events w @ [e]\<rparr>"

definition log_debug :: "string \<Rightarrow> string list \<Rightarrow> world \<Rightarrow> world" where
  "log_debug fmt args w = w\<lparr>logs := logs w @ [Log Debug fmt args]\<rparr>"

definition log_error :: "string \<Rightarrow> string list \<Rightarrow> world \<Rightarrow> world" where
  "log_error fmt args w = w\<lparr>logs := logs w @ [Log Error fmt args]\<rparr>"

text \<open>\<open>counter.record( n, { name: ... } )\<close> and \<open>timer.record( { name: ... } )\<close>.\<close>

definition record_counter :: "counter \<Rightarrow> nat \<Rightarrow> string \<Rightarrow> world \<Rightarrow> world" where
  "record_counter c n nm w = emit (CounterRecord c n nm) w"

definition record_timer :: "timer \<Rightarrow> string \<Rightarrow> world \<Rightarrow> world" where
  "record_timer t nm w = emit (TimerRecord t nm) w"

text \<open>\<open>res.status( code )\<close> and \<open>res.send( body )\<close>; sending writes the headers.\<close>

definition res_status :: "nat \<Rightarrow> world \<Rightarrow> world" where
  "res_status code w = w\<lparr>statusCode := code\<rparr>"

definition res_send :: "string \<Rightarrow> world \<Rightarrow> world" where
  "res_send body w = (emit (Send (statusCode w) body) w)\<lparr>headerSent := True\<rparr>"

text \<open>
  \<open>res.once( 'finish', f )\<close> registers \<open>f\<close>; when the transport emits \<open>finish\<close>
  every registered listener runs and is removed, so a second emission finds none.
\<close>

definition res_once_finish :: "listener \<Rightarrow> world \<Rightarrow> world" where
  "res_once_finish l w = w\<lparr>finishOnce := finishOnce w @ [l]\<rparr>"

fun run_listener :: "listener \<Rightarrow> world \<Rightarrow> world" where
  "run_listener (RecordTimer t nm) w = record_timer t nm w"

definition emit_finish :: "world \<Rightarrow> world" where
  "emit_finish w = fold run_listener (finishOnce w) (w\<lparr>finishOnce := []\<rparr>)"

text \<open>A request's world before the adapter's callback runs.\<close>

definition fresh :: "bool \<Rightarrow> world" where
  "fresh sent = \<lparr>events = [], logs = [], statusCode = 200, headerSent = sent, finishOnce = []\<rparr>"

section \<open>Promises\<close>

text \<open>
  \<open>p.then( onFulfilled, onRejected )\<close> on a promise in state \<open>p\<close>: the matching
  callback runs with the settled value, a callback that throws rejects the derived
  promise, a returned value resolves it, a missing callback passes the state through,
  and nothing runs while \<open>p\<close> is pending. The result is the state of the derived promise.
  Callbacks run in a later turn of the event loop; within one request they run in the
  order of the chain, which is the order in which the model runs them.
\<close>

type_synonym callback = "jsval \<Rightarrow> world \<Rightarrow> (jsval + jsval) \<times> world"

definition settle :: "(jsval + jsval) \<times> world \<Rightarrow> settled \<times> world" where
  "settle r = (case r of (Inl e, w) \<Rightarrow> (Rejected e, w) | (Inr v, w) \<Rightarrow> (resolve v, w))"

fun promise_then :: "settled \<Rightarrow> callback option \<Rightarrow> callback option \<Rightarrow> world \<Rightarrow> settled \<times> world" where
  "promise_then (Fulfilled v) onFulfilled onRejected w =
     (case onFulfilled of None \<Rightarrow> (Fulfilled v, w) | Some f \<Rightarrow> settle (f v w))"
| "promise_then (Rejected e) onFulfilled onRejected w =
     (case onRejected of None \<Rightarrow> (Rejected e, w) | Some g \<Rightarrow> settle (g e w))"
| "promise_then Pending onFulfilled onRejected w = (Pending, w)"

section \<open>Requests, resources, actions and adapter state\<close>

text \<open>
  \<open>req.user\<close> is an object; \<open>user_json\<close> is what \<open>JSON.stringify\<close> makes of it.
\<close>

record user =
  user_name :: "string option"
  user_username :: "string option"
  user_id :: "string option"
  user_json :: string

text \<open>
  The fields the route callback attaches to the request are \<open>None\<close> until it runs.
  \<open>req_checkPermission\<close> holds \<open>undefined\<close> (\<open>None\<close>) or the bound permission check.
\<close>

record req =
  req_user :: user
  req_context :: string
  req_metricKey :: "string list option"
  req_resource :: "string option"
  req_action :: "string option"
  req_checkPermission :: "(string \<Rightarrow> world \<Rightarrow> (jsval + settled) \<times> world) option"

record envelope =
  env_req :: req
  env_metricKey :: "string list"

datatype action_url = UrlUndefined | UrlString string | UrlRegExp string

datatype handler_result = Returns jsval | Throws jsval

record resource =
  res_name :: string
  res_apiPrefix :: "string option"
  res_urlPrefix :: "string option"

text \<open>\<open>act_handle a resource envelope\<close> is \<open>a.handle.apply( resource, [ envelope ] )\<close>.\<close>

record action =
  act_method :: string
  act_url :: action_url
  act_handle :: "resource \<Rightarrow> envelope \<Rightarrow> handler_result"

record config =
  cfg_apiPrefix :: "string option"
  cfg_urlPrefix :: "string option"
  cfg_urlStrategy :: "(string \<Rightarrow> string \<Rightarrow> action \<Rightarrow> resource list \<Rightarrow> string) option"
  cfg_handleRouteErrors :: bool

datatype provider_result = ProviderThrows jsval | ProviderReturns settled

text \<open>
  \<open>auth\<close> is the authorization provider's \<open>checkPermission( user, action, context )\<close>,
  \<open>http_buildUrl\<close> the transport's \<open>buildUrl\<close> applied to its argument list.
\<close>

record state =
  auth :: "(user \<Rightarrow> string \<Rightarrow> string \<Rightarrow> provider_result) option"
  config :: config
  http_buildUrl :: "string list \<Rightarrow> string"
  metrics_prefix :: string

datatype route_url = Path string | PrefixedRegExp string string


record action_meta =
  meta_alias :: string
  meta_handleErrors :: bool
  meta_metricKey :: "string list"
  meta_resourceKey :: "string list"
  meta_url :: route_url

type_synonym routes = "string \<rightharpoonup> string \<times> route_url"

text \<open>A value as a log argument.\<close>

fun show_action_url :: "action_url \<Rightarrow> string" where
  "show_action_url UrlUndefined = ''undefined''"
| "show_action_url (UrlString u) = u"
| "show_action_url (UrlRegExp r) = r"

fun show_route_url :: "route_url \<Rightarrow> string" where
  "show_route_url (Path u) = u"
| "show_route_url (PrefixedRegExp p r) = p @ r"

section \<open>adapter.js: route building\<close>

fun isRegExp :: "action_url \<Rightarrow> bool" where
  "isRegExp (UrlRegExp _) = True"
| "isRegExp _ = False"

text \<open>\<open>action.url || ''\<close> where the url is not a regular expression.\<close>

fun urlOrEmpty :: "action_url \<Rightarrow> string" where
  "urlOrEmpty (UrlString u) = u"
| "urlOrEmpty _ = []"

text \<open>
  The local \<open>prefix\<close> of \<open>buildActionUrl\<close>: the resource's own \<open>apiPrefix\<close> when it is
  defined, else the configured one, else \<open>'api'\<close>.
\<close>

definition actionPrefix :: "state \<Rightarrow> resource \<Rightarrow> string" where
  "actionPrefix st resource =
     (case res_apiPrefix resource of
        Some p \<Rightarrow> p
      | None \<Rightarrow> (case cfg_apiPrefix (config st) of None \<Rightarrow> ''api'' | Some p \<Rightarrow> p))"

definition hasPrefix :: "state \<Rightarrow> string \<Rightarrow> bool" where
  "hasPrefix st url =
     (let pfx = http_buildUrl st
                  [orEmpty (cfg_urlPrefix (config st)), orEmpty (cfg_apiPrefix (config st))]
      in indexOf url pfx = 0)"

text \<open>
  The locals \<open>resourceIndex\<close> and \<open>resourcePrefix\<close> of the default branch: an undefined
  or empty url gives index -1.
\<close>

definition resourceIndex :: "string \<Rightarrow> action_url \<Rightarrow> int" where
  "resourceIndex resourceName u =
     (case u of UrlString s \<Rightarrow> (if s \<noteq> [] then indexOf s resourceName else - 1) | _ \<Rightarrow> - 1)"

definition resourcePrefix :: "string \<Rightarrow> action_url \<Rightarrow> string" where
  "resourcePrefix resourceName u =
     (if resourceIndex resourceName u = 0 \<or> resourceIndex resourceName u = 1
      then [] else resourceName)"

definition buildActionUrl ::
  "state \<Rightarrow> string \<Rightarrow> string \<Rightarrow> action \<Rightarrow> resource \<Rightarrow> resource list \<Rightarrow> route_url" where
  "buildActionUrl st resourceName actionName act resource resources =
     (let pfx = actionPrefix st resource in
      if isRegExp (act_url act) then
        PrefixedRegExp (http_buildUrl st [orEmpty (cfg_urlPrefix (config st)), pfx])
          (show_action_url (act_url act))
      else
        (case cfg_urlStrategy (config st) of
           Some urlStrategy \<Rightarrow>
             (let u = urlStrategy resourceName actionName act resources;
                  pfx' = (if hasPrefix st u then [] else pfx)
              in Path (http_buildUrl st [pfx', u]))
         | None \<Rightarrow>
             Path (http_buildUrl st
                     [pfx, orEmpty (res_urlPrefix resource),
                      resourcePrefix resourceName (act_url act), urlOrEmpty (act_url act)])))"

definition buildActionAlias :: "string \<Rightarrow> string \<Rightarrow> string" where
  "buildActionAlias resourceName actionName = resourceName @ ''.'' @ actionName"

section \<open>adapter.js: the authorization gate\<close>

text \<open>\<open>user.name || user.username || user.id || JSON.stringify( user )\<close>.\<close>

definition getUserString :: "user \<Rightarrow> string" where
  "getUserString u =
     (if orEmpty (user_name u) \<noteq> [] then orEmpty (user_name u)
      else if orEmpty (user_username u) \<noteq> [] then orEmpty (user_username u)
      else if orEmpty (user_id u) \<noteq> [] then orEmpty (user_id u)
      else user_json u)"

text \<open>The two callbacks of \<open>checkPermissionFor\<close>, closed over its timer.\<close>

definition gate_onError :: "timer \<Rightarrow> callback" where
  "gate_onError tm err w =
     (case stack err of
        Inl e \<Rightarrow> (Inl e, w)
      | Inr s \<Rightarrow>
          (let w1 = log_error ''Error during check permissions: %s'' [s] w;
               w2 = record_counter authorizationErrors 1 ''HTTP_AUTHORIZATION_ERRORS'' w1;
               w3 = record_timer tm ''HTTP_AUTHORIZATION_DURATION'' w2
           in (Inr (JBool False), w3)))"

definition gate_onPermission :: "timer \<Rightarrow> callback" where
  "gate_onPermission tm granted w =
     (Inr granted, record_timer tm ''HTTP_AUTHORIZATION_DURATION'' w)"

text \<open>
  The result is \<open>Inl\<close> when the call to the provider throws (or there is no provider to
  call), else the state of the promise \<open>checkPermissionFor\<close> returns.
\<close>

definition checkPermissionFor ::
  "state \<Rightarrow> user \<Rightarrow> string \<Rightarrow> string \<Rightarrow> world \<Rightarrow> (jsval + settled) \<times> world" where
  "checkPermissionFor st usr context act w =
     (let w1 = log_debug ''Checking %s's permissions for %s'' [getUserString usr, act] w;
          w2 = record_counter authorizationAttempts 1 ''HTTP_AUTHORIZATION_ATTEMPTS'' w1;
          tm = AuthorizationTimer;
          w3 = emit (TimerStart tm) w2
      in case auth st of
           None \<Rightarrow> (Inl typeError, w3)
         | Some checkPermission \<Rightarrow>
             (case checkPermission usr act context of
                ProviderThrows e \<Rightarrow> (Inl e, w3)
              | ProviderReturns p \<Rightarrow>
                  (case promise_then p (Some (gate_onPermission tm)) (Some (gate_onError tm)) w3 of
                     (p', w4) \<Rightarrow> (Inr p', w4))))"

section \<open>adapter.js: action metadata\<close>

definition authAttempted :: "world \<Rightarrow> world" where
  "authAttempted w = record_counter authorizationAttempts 1 ''HTTP_AUTHORIZATION_ATTEMPTS'' w"

definition authGranted :: "world \<Rightarrow> world" where
  "authGranted w = record_counter authorizationGrants 1 ''HTTP_AUTHORIZATION_GRANTED'' w"

definition authRejected :: "world \<Rightarrow> world" where
  "authRejected w = record_counter authorizationRejections 1 ''HTTP_AUTHORIZATION_REJECTED'' w"

definition getEnvelope :: "action_meta \<Rightarrow> req \<Rightarrow> world \<Rightarrow> envelope \<times> world" where
  "getEnvelope meta rq w =
     (\<lparr>env_req = rq, env_metricKey = meta_metricKey meta\<rparr>, emit (NewEnvelope (meta_metricKey meta)) w)"

definition getPermissionCheck ::
  "state \<Rightarrow> req \<Rightarrow> (string \<Rightarrow> world \<Rightarrow> (jsval + settled) \<times> world) option" where
  "getPermissionCheck st rq =
     (if auth st \<noteq> None then Some (checkPermissionFor st (req_user rq) (req_context rq)) else None)"

definition getTimer :: "action_meta \<Rightarrow> world \<Rightarrow> timer \<times> world" where
  "getTimer meta w =
     (let tm = Timer (meta_resourceKey meta @ [''duration'']) in (tm, emit (TimerStart tm) w))"

definition getActionMetadata ::
  "state \<Rightarrow> resource \<Rightarrow> string \<Rightarrow> action \<Rightarrow> routes \<Rightarrow> resource list \<Rightarrow> action_meta \<times> routes" where
  "getActionMetadata st resource actionName act rts resources =
     (let u = buildActionUrl st (res_name resource) actionName act resource resources;
          al = buildActionAlias (res_name resource) actionName;
          rk = [res_name resource @ ''-'' @ actionName, ''http''];
          mk = [metrics_prefix st] @ rk
      in (\<lparr>meta_alias = al,
           meta_handleErrors = cfg_handleRouteErrors (config st),
           meta_metricKey = mk,
           meta_resourceKey = rk,
           meta_url = u\<rparr>,
          rts(actionName \<mapsto> (act_method act, u))))"


section \<open>adapter.js: the dispatcher\<close>

text \<open>
  The handler call of \<open>respond\<close>, inside \<open>try\<close>/\<open>catch\<close> when \<open>meta.handleErrors\<close>
  is set and bare otherwise: \<open>Inr\<close> is the value assigned to \<open>result\<close>, \<open>Inl\<close> an
  exception that leaves \<open>respond\<close>. The catch block reads \<open>err.stack\<close> for its log line
  before it assigns \<open>err\<close> to \<open>result\<close>.
\<close>

definition respond_invoke ::
  "bool \<Rightarrow> action \<Rightarrow> resource \<Rightarrow> envelope \<Rightarrow> world \<Rightarrow> (jsval + jsval) \<times> world" where
  "respond_invoke handleErrors act resource envelope w =
     (let w1 = emit Handle w in
      case act_handle act resource envelope of
        Returns v \<Rightarrow> (Inr v, w1)
      | Throws err \<Rightarrow>
          if handleErrors then
            (case stack err of
               Inl e \<Rightarrow> (Inl e, w1)
             | Inr s \<Rightarrow>
                 (Inr err,
                  log_error ''API EXCEPTION! route: %s %s failed with %s''
                    [toUpperCase (act_method act), show_action_url (act_url act), s] w1))
          else (Inl err, w1))"

text \<open>\<open>onResult\<close>: \<open>envelope.handleReturn( state.config, resource, action, x )\<close>.\<close>

definition onResult :: callback where
  "onResult x w = (Inr JUndefined, emit (HandleReturn x) w)"

definition respond ::
  "state \<Rightarrow> action_meta \<Rightarrow> req \<Rightarrow> resource \<Rightarrow> action \<Rightarrow> world \<Rightarrow> (jsval + unit) \<times> world" where
  "respond st meta rq resource act w =
     (case getEnvelope meta rq w of
        (envelope, w1) \<Rightarrow>
          (case respond_invoke (meta_handleErrors meta) act resource envelope w1 of
             (Inl e, w2) \<Rightarrow> (Inl e, w2)
           | (Inr result, w2) \<Rightarrow>
               if truthy result then
                 (case thenable result of
                    Some p \<Rightarrow> (Inr (), snd (promise_then p (Some onResult) (Some onResult) w2))
                  | None \<Rightarrow> (Inr (), emit (HandleReturn result) w2))
               else (Inr (), w2)))"

text \<open>The continuation \<open>onPermission\<close> that the route callback attaches to the gate's promise.\<close>

definition route_onPermission ::
  "state \<Rightarrow> action_meta \<Rightarrow> req \<Rightarrow> resource \<Rightarrow> action \<Rightarrow> callback" where
  "route_onPermission st meta rq resource act pass w =
     (if truthy pass then
        (let w1 = authGranted w;
             w2 = log_debug ''HTTP activation of action %s (%s %s) for %j granted''
                    [meta_alias meta, act_method act, show_route_url (meta_url meta),
                     getUserString (req_user rq)] w1
         in case respond st meta rq resource act w2 of
              (Inl e, w3) \<Rightarrow> (Inl e, w3)
            | (Inr _, w3) \<Rightarrow> (Inr JUndefined, w3))
      else
        (let w1 = authRejected w;
             w2 = log_debug ''User %s was denied HTTP activation of action %s (%s %s)''
                    [getUserString (req_user rq), meta_alias meta, act_method act,
                     show_route_url (meta_url meta)] w1
         in (Inr JUndefined,
             if \<not> headerSent w2
             then res_send ''User lacks sufficient permissions'' (res_status 403 w2)
             else w2)))"

text \<open>
  How the route callback ends: it returns with no promise attached (\<open>Returned\<close>), it
  returns after attaching \<open>onPermission\<close> to the gate's promise, whose derived promise
  it drops (\<open>Chained\<close>, with the state that promise reaches), or an exception leaves it
  for the transport (\<open>Threw\<close>).
\<close>

datatype outcome = Returned | Chained settled | Threw jsval

text \<open>The callback that \<open>wireupAction\<close> registers with \<open>state.http.route\<close>.\<close>

definition handleRequest ::
  "state \<Rightarrow> resource \<Rightarrow> string \<Rightarrow> action \<Rightarrow> action_meta \<Rightarrow> req \<Rightarrow> world
     \<Rightarrow> outcome \<times> req \<times> world" where
  "handleRequest st resource actionName act meta rq0 w =
     (let rq = rq0\<lparr>req_metricKey := Some (meta_metricKey meta),
                    req_resource := Some (res_name resource),
                    req_action := Some actionName,
                    req_checkPermission := getPermissionCheck st rq0\<rparr>
      in case getTimer meta w of
           (tm, w1) \<Rightarrow>
             (let w2 = res_once_finish (RecordTimer tm ''HTTP_API_DURATION'') w1 in
              if auth st \<noteq> None then
                (case checkPermissionFor st (req_user rq) (req_context rq) (meta_alias meta)
                        (authAttempted w2) of
                   (Inl e, w3) \<Rightarrow> (Threw e, rq, w3)
                 | (Inr p, w3) \<Rightarrow>
                     (case promise_then p (Some (route_onPermission st meta rq resource act)) None w3 of
                        (p', w4) \<Rightarrow> (Chained p', rq, w4)))
              else
                (case respond st meta rq resource act w2 of
                   (Inl e, w3) \<Rightarrow> (Threw e, rq, w3)
                 | (Inr _, w3) \<Rightarrow> (Returned, rq, w3))))"

record route =
  route_url :: route_url
  route_method :: string
  route_handler :: "req \<Rightarrow> world \<Rightarrow> outcome \<times> req \<times> world"

text \<open>
  \<open>wireupAction\<close> builds the metadata once, logs the mapping and registers the route;
  the result is the route handed to \<open>state.http.route\<close>, the routes table with the
  action's entry, and the log line.
\<close>

definition wireupAction ::
  "state \<Rightarrow> resource \<Rightarrow> string \<Rightarrow> action \<Rightarrow> routes \<Rightarrow> resource list
     \<Rightarrow> route \<times> routes \<times> logline" where
  "wireupAction st resource actionName act metadata resources =
     (case getActionMetadata st resource actionName act metadata resources of
        (meta, metadata') \<Rightarrow>
          (\<lparr>route_url = meta_url meta,
            route_method = act_method act,
            route_handler = handleRequest st resource actionName act meta\<rparr>,
           metadata',
           Log Debug ''Mapping resource '%s' action '%s' to %s %s''
             [res_name resource, actionName, act_method act, show_route_url (meta_url meta)]))"

text \<open>A request as the transport hands it to the callback of the route of an action.\<close>

definition dispatch ::
  "state \<Rightarrow> resource \<Rightarrow> string \<Rightarrow> action \<Rightarrow> resource list \<Rightarrow> req \<Rightarrow> world
     \<Rightarrow> outcome \<times> req \<times> world" where
  "dispatch st resource actionName act resources rq w =
     route_handler (fst (wireupAction st resource actionName act Map.empty resources)) rq w"

section \<open>Observations on a trace\<close>

definition counted :: "counter \<Rightarrow> world \<Rightarrow> nat" where
  "counted c w = length (filter (\<lambda>e. case e of CounterRecord c' _ _ \<Rightarrow> c' = c | _ \<Rightarrow> False) (events w))"

definition timed :: "string \<Rightarrow> world \<Rightarrow> nat" where
  "timed nm w = length (filter (\<lambda>e. case e of TimerRecord _ nm' \<Rightarrow> nm' = nm | _ \<Rightarrow> False) (events w))"

definition handled :: "world \<Rightarrow> nat" where
  "handled w = length (filter (\<lambda>e. e = Handle) (events w))"

definition returned :: "world \<Rightarrow> jsval list" where
  "returned w = concat (map (\<lambda>e. case e of HandleReturn x \<Rightarrow> [x] | _ \<Rightarrow> []) (events w))"

definition sent :: "world \<Rightarrow> (nat \<times> string) list" where
  "sent w = concat (map (\<lambda>e. case e of Send code body \<Rightarrow> [(code, body)] | _ \<Rightarrow> []) (events w))"


section \<open>The transport's URL join and a sample wiring\<close>

text \<open>
  Modelled from the spec: \<open>state.http.buildUrl\<close> is defined by the transport
  (http.js), which is not among the sources; the adapter receives it in \<open>state.http\<close>.
  The spec calls it the transport's URL-join convention and shows that
  \<open>api\<close>, an empty prefix, \<open>widgets\<close> and an empty url give \<open>/api/widgets\<close>, and that
  \<open>api\<close> and \<open>/widgets/:id\<close> give \<open>/api/widgets/:id\<close>: each argument loses one leading
  and one trailing slash, empty arguments are dropped, and the rest is joined with
  slashes behind a leading slash.
\<close>

definition cleanSegment :: "string \<Rightarrow> string" where
  "cleanSegment s =
     (let s1 = (if take 1 s = ''/'' then drop 1 s else s)
      in if s1 \<noteq> [] \<and> last s1 = CHR ''/'' then butlast s1 else s1)"

fun joinSegments :: "string list \<Rightarrow> string" where
  "joinSegments [] = []"
| "joinSegments [s] = s"
| "joinSegments (s # t # ss) = s @ ''/'' @ joinSegments (t # ss)"

definition joinUrl :: "string list \<Rightarrow> string" where
  "joinUrl segments = ''/'' @ joinSegments (filter (\<lambda>s. s \<noteq> []) (map cleanSegment segments))"

definition defaultConfig :: config where
  "defaultConfig =
     \<lparr>cfg_apiPrefix = None, cfg_urlPrefix = None, cfg_urlStrategy = None,
      cfg_handleRouteErrors = False\<rparr>"

definition sampleState ::
  "(user \<Rightarrow> string \<Rightarrow> string \<Rightarrow> provider_result) option \<Rightarrow> config \<Rightarrow> state" where
  "sampleState provider cfg =
     \<lparr>auth = provider, config = cfg, http_buildUrl = joinUrl, metrics_prefix = ''autohost''\<rparr>"

definition widgets :: resource where
  "widgets = \<lparr>res_name = ''widgets'', res_apiPrefix = None, res_urlPrefix = None\<rparr>"

definition getWidget :: "string \<Rightarrow> handler_result \<Rightarrow> action" where
  "getWidget u r = \<lparr>act_method = ''get'', act_url = UrlString u, act_handle = (\<lambda>_ _. r)\<rparr>"

definition alice :: req where
  "alice =
     \<lparr>req_user = \<lparr>user_name = Some ''alice'', user_username = None, user_id = None,
                  user_json = ''{ name: alice }''\<rparr>,
      req_context = ''context'',
      req_metricKey = None, req_resource = None, req_action = None,
      req_checkPermission = None\<rparr>"

text \<open>A provider that behaves the same way for every user, action and context.\<close>

definition always :: "provider_result \<Rightarrow> (user \<Rightarrow> string \<Rightarrow> string \<Rightarrow> provider_result) option" where
  "always r = Some (\<lambda>_ _ _. r)"

section \<open>Notions used in the statements\<close>

text \<open>
  The values a handler result makes \<open>respond\<close> pass to \<open>envelope.handleReturn\<close>, in
  order.
\<close>

definition forwarded :: "jsval \<Rightarrow> jsval list" where
  "forwarded v =
     (if truthy v then
        (case thenable v of
           Some (Fulfilled x) \<Rightarrow> [x]
         | Some (Rejected x) \<Rightarrow> [x]
         | Some Pending \<Rightarrow> []
         | None \<Rightarrow> [v])
      else [])"

text \<open>The world after the first three statements of \<open>checkPermissionFor\<close>.\<close>

definition gateStart :: "user \<Rightarrow> string \<Rightarrow> world \<Rightarrow> world" where
  "gateStart usr act w =
     w\<lparr>events := events w @ [CounterRecord authorizationAttempts 1 ''HTTP_AUTHORIZATION_ATTEMPTS'',
                                TimerStart AuthorizationTimer],
       logs := logs w @ [Log Debug ''Checking %s's permissions for %s'' [getUserString usr, act]]\<rparr>"

text \<open>
  The wording of the route builder's rule, to compare with \<open>resourcePrefix\<close>: the url,
  cut at its slashes, begins with the resource name at its first or second segment.
\<close>

fun splitOn :: "char \<Rightarrow> string \<Rightarrow> string list" where
  "splitOn c [] = [[]]"
| "splitOn c (x # xs) =
     (if x = c then [] # splitOn c xs
      else (case splitOn c xs of [] \<Rightarrow> [[x]] | s # ss \<Rightarrow> (x # s) # ss))"

definition claimedOmission :: "string \<Rightarrow> action_url \<Rightarrow> bool" where
  "claimedOmission resourceName u =
     (case u of
        UrlString s \<Rightarrow> list_ex (prefix resourceName) (take 2 (splitOn CHR ''/'' s))
      | _ \<Rightarrow> False)"

text \<open>
  What \<open>resourcePrefix\<close> tests, without \<open>indexOf\<close>: the url is a non-empty string and
  the resource name stands in it at character index 0 or 1.
\<close>

definition atIndex0or1 :: "string \<Rightarrow> action_url \<Rightarrow> bool" where
  "atIndex0or1 resourceName u =
     (case u of
        UrlString s \<Rightarrow> s \<noteq> [] \<and> (prefix resourceName s \<or> prefix resourceName (tl s))
      | _ \<Rightarrow> False)"

text \<open>
  A configuration with an \<open>apiPrefix\<close> and a url strategy that returns a url under the
  prefix for the action \<open>get\<close> and a bare one for every other action.
\<close>

definition versioned :: config where
  "versioned = defaultConfig\<lparr>cfg_apiPrefix := Some ''v1'',
      cfg_urlStrategy := Some (\<lambda>rn an a rs. (if an = ''get'' then ''/v1/'' else ''/'') @ rn @ ''/'' @ an)\<rparr>"

text \<open>The metadata \<open>wireupAction\<close> builds for the action \<open>get\<close> of the sample resource.\<close>

definition sampleMeta :: action_meta where
  "sampleMeta =
     fst (getActionMetadata (sampleState None defaultConfig) widgets ''get''
            (getWidget ''/widgets/:id'' (Returns JUndefined)) Map.empty [])"

text \<open>The request once the route callback has attached its fields.\<close>

definition attach :: "state \<Rightarrow> resource \<Rightarrow> string \<Rightarrow> action_meta \<Rightarrow> req \<Rightarrow> req" where
  "attach st resource an meta rq =
     rq\<lparr>req_metricKey := Some (meta_metricKey meta),
        req_resource := Some (res_name resource),
        req_action := Some an,
        req_checkPermission := getPermissionCheck st rq\<rparr>"

text \<open>The world once the route callback has started its timer and registered the listener.\<close>

definition started :: "action_meta \<Rightarrow> world \<Rightarrow> world" where
  "started meta w =
     res_once_finish (RecordTimer (Timer (meta_resourceKey meta @ [''duration''])) ''HTTP_API_DURATION'')
       (emit (TimerStart (Timer (meta_resourceKey meta @ [''duration'']))) w)"

text \<open>
  Two worlds that differ by nothing but the records of the authorization-error counter
  and the error lines of the log.
\<close>

definition sameButForError :: "world \<Rightarrow> world \<Rightarrow> bool" where
  "sameButForError failed denied =
     (filter (\<lambda>e. e \<noteq> CounterRecord authorizationErrors 1 ''HTTP_AUTHORIZATION_ERRORS'') (events failed)
        = events denied \<and>
      filter (\<lambda>l. case l of Log Error _ _ \<Rightarrow> False | _ \<Rightarrow> True) (logs failed) = logs denied \<and>
      statusCode failed = statusCode denied \<and>
      headerSent failed = headerSent denied \<and>
      finishOnce failed = finishOnce denied)"

section \<open>What the parts of the adapter do to a request's world\<close>

lemma dispatch_eq:
  "dispatch st resource an act resources rq w =
     handleRequest st resource an act (fst (getActionMetadata st resource an act Map.empty resources)) rq w"
  by (simp add: dispatch_def wireupAction_def split: prod.splits)

lemma respond_returns:
  assumes "act_handle act resource \<lparr>env_req = rq, env_metricKey = meta_metricKey meta\<rparr> = Returns v"
  shows "respond st meta rq resource act w =
     (Inr (), w\<lparr>events := events w @ [NewEnvelope (meta_metricKey meta), Handle] @ map HandleReturn (forwarded v)\<rparr>)"
  using assms
  by (simp add: respond_def respond_invoke_def getEnvelope_def forwarded_def emit_def
        onResult_def settle_def split: option.splits settled.splits)

lemma respond_propagates:
  assumes "act_handle act resource \<lparr>env_req = rq, env_metricKey = meta_metricKey meta\<rparr> = Throws err"
    and "\<not> meta_handleErrors meta"
  shows "respond st meta rq resource act w =
     (Inl err, w\<lparr>events := events w @ [NewEnvelope (meta_metricKey meta), Handle]\<rparr>)"
  using assms by (simp add: respond_def respond_invoke_def getEnvelope_def emit_def)

lemma respond_absorbs:
  assumes "act_handle act resource \<lparr>env_req = rq, env_metricKey = meta_metricKey meta\<rparr> = Throws err"
    and "meta_handleErrors meta" and "stack err = Inr s"
  shows "respond st meta rq resource act w =
     (Inr (), w\<lparr>events := events w @ [NewEnvelope (meta_metricKey meta), Handle] @ map HandleReturn (forwarded err),
                logs := logs w @ [Log Error ''API EXCEPTION! route: %s %s failed with %s''
                    [toUpperCase (act_method act), show_action_url (act_url act), s]]\<rparr>)"
  using assms
  by (simp add: respond_def respond_invoke_def getEnvelope_def forwarded_def emit_def log_error_def
        onResult_def settle_def split: option.splits settled.splits)

lemma respond_catch_fails:
  assumes "act_handle act resource \<lparr>env_req = rq, env_metricKey = meta_metricKey meta\<rparr> = Throws err"
    and "meta_handleErrors meta" and "stack err = Inl e"
  shows "respond st meta rq resource act w =
     (Inl e, w\<lparr>events := events w @ [NewEnvelope (meta_metricKey meta), Handle]\<rparr>)"
  using assms by (simp add: respond_def respond_invoke_def getEnvelope_def emit_def)

lemma respond_shape:
  "\<exists>r vs ls. respond st meta rq resource act w =
     (r, w\<lparr>events := events w @ [NewEnvelope (meta_metricKey meta), Handle] @ map HandleReturn vs,
            logs := logs w @ ls\<rparr>)"
proof (cases "act_handle act resource \<lparr>env_req = rq, env_metricKey = meta_metricKey meta\<rparr>")
  case (Returns v)
  from respond_returns [OF this, of st w] show ?thesis
    by (intro exI [of _ "Inr ()"] exI [of _ "forwarded v"] exI [of _ "[]"]) simp
next
  case (Throws err)
  show ?thesis
  proof (cases "meta_handleErrors meta")
    case False
    from respond_propagates [OF Throws this, of st w] show ?thesis
      by (intro exI [of _ "Inl err"] exI [of _ "[]"]) simp
  next
    case True
    show ?thesis
    proof (cases "stack err")
      case (Inl e)
      from respond_catch_fails [OF Throws True this, of st w] show ?thesis
        by (intro exI [of _ "Inl e"] exI [of _ "[]"]) simp
    next
      case (Inr s)
      from respond_absorbs [OF Throws True this, of st w] show ?thesis
        by (intro exI [of _ "Inr ()"] exI [of _ "forwarded err"]) (simp, rule exI, rule refl)
    qed
  qed
qed

lemma respond_frame:
  "finishOnce (snd (respond st meta rq resource act w)) = finishOnce w"
  "headerSent (snd (respond st meta rq resource act w)) = headerSent w"
  "timed nm (snd (respond st meta rq resource act w)) = timed nm w"
  "counted c (snd (respond st meta rq resource act w)) = counted c w"
  "sent (snd (respond st meta rq resource act w)) = sent w"
  "handled (snd (respond st meta rq resource act w)) = Suc (handled w)"
  using respond_shape [of st meta rq resource act w]
  by (auto simp: timed_def counted_def sent_def handled_def filter_map comp_def)

lemma gate_throws:
  assumes "auth st = Some cp" and "cp usr act ctx = ProviderThrows e"
  shows "checkPermissionFor st usr ctx act w = (Inl e, gateStart usr act w)"
  using assms
  by (simp add: checkPermissionFor_def gateStart_def Let_def log_debug_def record_counter_def emit_def)

lemma gate_no_provider:
  assumes "auth st = None"
  shows "checkPermissionFor st usr ctx act w = (Inl typeError, gateStart usr act w)"
  using assms
  by (simp add: checkPermissionFor_def gateStart_def Let_def log_debug_def record_counter_def emit_def)

lemma gate_pending:
  assumes "auth st = Some cp" and "cp usr act ctx = ProviderReturns Pending"
  shows "checkPermissionFor st usr ctx act w = (Inr Pending, gateStart usr act w)"
  using assms
  by (simp add: checkPermissionFor_def gateStart_def Let_def log_debug_def record_counter_def emit_def)

lemma gate_fulfilled:
  assumes "auth st = Some cp" and "cp usr act ctx = ProviderReturns (Fulfilled v)"
  shows "checkPermissionFor st usr ctx act w =
     (Inr (resolve v),
      emit (TimerRecord AuthorizationTimer ''HTTP_AUTHORIZATION_DURATION'') (gateStart usr act w))"
  using assms
  by (simp add: checkPermissionFor_def gateStart_def Let_def log_debug_def record_counter_def
        record_timer_def emit_def gate_onPermission_def settle_def)

lemma gate_rejected:
  assumes "auth st = Some cp" and "cp usr act ctx = ProviderReturns (Rejected err)"
    and "stack err = Inr s"
  shows "checkPermissionFor st usr ctx act w =
     (Inr (Fulfilled (JBool False)),
      emit (TimerRecord AuthorizationTimer ''HTTP_AUTHORIZATION_DURATION'')
        (emit (CounterRecord authorizationErrors 1 ''HTTP_AUTHORIZATION_ERRORS'')
           (log_error ''Error during check permissions: %s'' [s] (gateStart usr act w))))"
  using assms
  by (simp add: checkPermissionFor_def gateStart_def Let_def log_debug_def log_error_def
        record_counter_def record_timer_def emit_def gate_onError_def settle_def)

lemma gate_rejected_unreadable:
  assumes "auth st = Some cp" and "cp usr act ctx = ProviderReturns (Rejected err)"
    and "stack err = Inl e"
  shows "checkPermissionFor st usr ctx act w = (Inr (Rejected e), gateStart usr act w)"
  using assms
  by (simp add: checkPermissionFor_def gateStart_def Let_def log_debug_def
        record_counter_def emit_def gate_onError_def settle_def)

lemma gate_frame:
  "finishOnce (snd (checkPermissionFor st usr ctx act w)) = finishOnce w"
  "timed ''HTTP_API_DURATION'' (snd (checkPermissionFor st usr ctx act w)) = timed ''HTTP_API_DURATION'' w"
proof -
  let ?Q = "\<lambda>w. (finishOnce w, timed ''HTTP_API_DURATION'' w)"
  have start: "?Q (gateStart usr act w) = ?Q w"
    by (simp add: gateStart_def timed_def)
  have "?Q (snd (checkPermissionFor st usr ctx act w)) = ?Q w"
  proof (cases "auth st")
    case None
    then show ?thesis using start by (simp add: gate_no_provider)
  next
    case (Some cp)
    show ?thesis
    proof (cases "cp usr act ctx")
      case (ProviderThrows e)
      then show ?thesis using Some start by (simp add: gate_throws)
    next
      case (ProviderReturns p)
      show ?thesis
      proof (cases p)
        case (Fulfilled v)
        then show ?thesis using Some ProviderReturns start
          by (simp add: gate_fulfilled emit_def timed_def)
      next
        case (Rejected err)
        then show ?thesis using Some ProviderReturns start
          by (cases "stack err")
             (simp_all add: gate_rejected gate_rejected_unreadable emit_def log_error_def timed_def)
      next
        case Pending
        then show ?thesis using Some ProviderReturns start by (simp add: gate_pending)
      qed
    qed
  qed
  then show "finishOnce (snd (checkPermissionFor st usr ctx act w)) = finishOnce w"
    and "timed ''HTTP_API_DURATION'' (snd (checkPermissionFor st usr ctx act w)) = timed ''HTTP_API_DURATION'' w"
    by simp_all
qed

lemma snd_rethrow:
  "snd (case p of (Inl e, w) \<Rightarrow> (Inl e, w) | (Inr x, w) \<Rightarrow> (Inr (c x), w)) = snd p"
  by (cases p; cases "fst p") auto

lemma onPermission_world:
  "snd (route_onPermission st meta rq resource act pass w) =
     (if truthy pass then
        snd (respond st meta rq resource act
               (log_debug ''HTTP activation of action %s (%s %s) for %j granted''
                  [meta_alias meta, act_method act, show_route_url (meta_url meta),
                   getUserString (req_user rq)] (authGranted w)))
      else if headerSent w then
        log_debug ''User %s was denied HTTP activation of action %s (%s %s)''
          [getUserString (req_user rq), meta_alias meta, act_method act,
           show_route_url (meta_url meta)] (authRejected w)
      else
        res_send ''User lacks sufficient permissions''
          (res_status 403
             (log_debug ''User %s was denied HTTP activation of action %s (%s %s)''
                [getUserString (req_user rq), meta_alias meta, act_method act,
                 show_route_url (meta_url meta)] (authRejected w))))"
  by (simp add: route_onPermission_def Let_def snd_rethrow log_debug_def authRejected_def
        record_counter_def emit_def)

lemma timer_frame:
  "finishOnce (log_debug f a w) = finishOnce w"
  "timed nm (log_debug f a w) = timed nm w"
  "finishOnce (authAttempted w) = finishOnce w"
  "timed nm (authAttempted w) = timed nm w"
  "finishOnce (authGranted w) = finishOnce w"
  "timed nm (authGranted w) = timed nm w"
  "finishOnce (authRejected w) = finishOnce w"
  "timed nm (authRejected w) = timed nm w"
  "finishOnce (res_send b (res_status c w)) = finishOnce w"
  "timed nm (res_send b (res_status c w)) = timed nm w"
  by (simp_all add: log_debug_def authAttempted_def authGranted_def authRejected_def
        record_counter_def emit_def res_send_def res_status_def timed_def)

lemma onPermission_frame:
  "finishOnce (snd (route_onPermission st meta rq resource act pass w)) = finishOnce w"
  "timed nm (snd (route_onPermission st meta rq resource act pass w)) = timed nm w"
  by (simp_all add: onPermission_world respond_frame timer_frame)

lemma snd_settle: "snd (settle r) = snd r"
  by (cases r; cases "fst r") (auto simp: settle_def)

lemma then_frame:
  assumes "\<And>v w. Q (snd (f v w)) = Q w"
  shows "Q (snd (promise_then p (Some f) None w)) = Q w"
  using assms by (cases p) (simp_all add: snd_settle)

lemma snd_snd_case:
  "snd (snd (case p of (Inl e, w) \<Rightarrow> (a e, r, w) | (Inr x, w) \<Rightarrow> (b x, r, w))) = snd p"
  by (cases p; cases "fst p") auto

lemma handleRequest_world:
  "snd (snd (handleRequest st resource an act meta rq w)) =
     (let rq' = rq\<lparr>req_metricKey := Some (meta_metricKey meta),
                    req_resource := Some (res_name resource),
                    req_action := Some an,
                    req_checkPermission := getPermissionCheck st rq\<rparr>;
          w2 = res_once_finish (RecordTimer (Timer (meta_resourceKey meta @ [''duration''])) ''HTTP_API_DURATION'')
                 (emit (TimerStart (Timer (meta_resourceKey meta @ [''duration'']))) w)
      in if auth st \<noteq> None then
           (case checkPermissionFor st (req_user rq) (req_context rq) (meta_alias meta) (authAttempted w2) of
              (Inl e, w3) \<Rightarrow> w3
            | (Inr p, w3) \<Rightarrow> snd (promise_then p (Some (route_onPermission st meta rq' resource act)) None w3))
         else snd (respond st meta rq' resource act w2))"
  by (simp add: handleRequest_def getTimer_def Let_def snd_snd_case split: prod.splits sum.splits)

lemma handleRequest_frame:
  "finishOnce (snd (snd (handleRequest st resource an act meta rq w))) =
     finishOnce w @ [RecordTimer (Timer (meta_resourceKey meta @ [''duration''])) ''HTTP_API_DURATION'']"
  "timed ''HTTP_API_DURATION'' (snd (snd (handleRequest st resource an act meta rq w))) =
     timed ''HTTP_API_DURATION'' w"
proof -
  let ?Q = "\<lambda>w. (finishOnce w, timed ''HTTP_API_DURATION'' w)"
  let ?l = "RecordTimer (Timer (meta_resourceKey meta @ [''duration''])) ''HTTP_API_DURATION''"
  let ?w2 = "res_once_finish ?l (emit (TimerStart (Timer (meta_resourceKey meta @ [''duration'']))) w)"
  let ?rq = "rq\<lparr>req_metricKey := Some (meta_metricKey meta),
                    req_resource := Some (res_name resource),
                    req_action := Some an,
                    req_checkPermission := getPermissionCheck st rq\<rparr>"
  have w2: "?Q ?w2 = (finishOnce w @ [?l], timed ''HTTP_API_DURATION'' w)"
    by (simp add: res_once_finish_def emit_def timed_def)
  have gate: "?Q (snd (checkPermissionFor st (req_user rq) (req_context rq) (meta_alias meta) (authAttempted ?w2))) = ?Q ?w2"
    by (simp only: gate_frame timer_frame)
  have cont: "\<And>p w3. ?Q (snd (promise_then p (Some (route_onPermission st meta ?rq resource act)) None w3)) = ?Q w3"
    by (rule then_frame) (simp only: onPermission_frame)
  have "?Q (snd (snd (handleRequest st resource an act meta rq w))) = ?Q ?w2"
  proof (cases "auth st")
    case None
    then show ?thesis
      by (simp add: handleRequest_world Let_def respond_frame)
  next
    case (Some cp)
    obtain r w3 where g: "checkPermissionFor st (req_user rq) (req_context rq) (meta_alias meta) (authAttempted ?w2) = (r, w3)"
      by (cases "checkPermissionFor st (req_user rq) (req_context rq) (meta_alias meta) (authAttempted ?w2)")
    from gate g have w3: "?Q w3 = ?Q ?w2" by simp
    show ?thesis
    proof (cases r)
      case (Inl e)
      with Some g w3 show ?thesis by (simp add: handleRequest_world Let_def)
    next
      case (Inr p)
      with Some g w3 cont [of p w3] show ?thesis by (simp add: handleRequest_world Let_def)
    qed
  qed
  with w2 show "finishOnce (snd (snd (handleRequest st resource an act meta rq w))) = finishOnce w @ [?l]"
    and "timed ''HTTP_API_DURATION'' (snd (snd (handleRequest st resource an act meta rq w))) =
     timed ''HTTP_API_DURATION'' w"
    by simp_all
qed

lemma record_timer_obs:
  "finishOnce (record_timer t nm' w) = finishOnce w"
  "timed nm (record_timer t nm' w) = timed nm w + (if nm' = nm then 1 else 0)"
  by (simp_all add: record_timer_def emit_def timed_def)

lemma fold_listeners_finishOnce:
  "finishOnce (fold run_listener ls w) = finishOnce w"
proof (induction ls arbitrary: w)
  case Nil
  show ?case by simp
next
  case (Cons l ls)
  show ?case by (cases l) (simp add: Cons.IH record_timer_obs)
qed

lemma fold_listeners_timed:
  "timed nm (fold run_listener ls w) =
     timed nm w + length (filter (\<lambda>l. case l of RecordTimer _ nm' \<Rightarrow> nm' = nm) ls)"
proof (induction ls arbitrary: w)
  case Nil
  show ?case by simp
next
  case (Cons l ls)
  show ?case by (cases l) (simp add: Cons.IH record_timer_obs)
qed

lemma timed_finishOnce_update: "timed nm (w\<lparr>finishOnce := ls\<rparr>) = timed nm w"
  by (simp add: timed_def)

lemma emit_finish_idle: "finishOnce w = [] \<Longrightarrow> emit_finish w = w"
  by (simp add: emit_finish_def)

lemma emit_finish_clears: "finishOnce (emit_finish w) = []"
  by (simp add: emit_finish_def fold_listeners_finishOnce)

lemma emit_finish_again: "(emit_finish ^^ Suc n) w = emit_finish w"
proof (induction n)
  case 0
  show ?case by simp
next
  case (Suc n)
  have "(emit_finish ^^ Suc (Suc n)) w = emit_finish ((emit_finish ^^ Suc n) w)" by simp
  also have "\<dots> = emit_finish (emit_finish w)" by (simp only: Suc.IH)
  also have "\<dots> = emit_finish w" by (rule emit_finish_idle) (rule emit_finish_clears)
  finally show ?case .
qed

lemma emit_finish_timed:
  "timed nm (emit_finish w) =
     timed nm w + length (filter (\<lambda>l. case l of RecordTimer _ nm' \<Rightarrow> nm' = nm) (finishOnce w))"
  by (simp add: emit_finish_def fold_listeners_timed timed_finishOnce_update)

text \<open>
  Claim C6. Whatever the provider and the handler do (the check is granted, denied,
  failing or never settling, there is no provider, the handler returns a plain value, a
  deferred value or throws), the route callback leaves exactly one listener on the
  response's \<open>finish\<close> event and records no \<open>HTTP_API_DURATION\<close> itself; once the
  transport emits \<open>finish\<close>, however often, the request's duration timer has recorded
  exactly once.
\<close>

theorem duration_recorded_once_at_finish:
  "timed ''HTTP_API_DURATION'' (snd (snd (dispatch st resource an act resources rq (fresh hs)))) = 0 \<and>
   finishOnce (snd (snd (dispatch st resource an act resources rq (fresh hs)))) =
     [RecordTimer (Timer [res_name resource @ ''-'' @ an, ''http'', ''duration'']) ''HTTP_API_DURATION''] \<and>
   timed ''HTTP_API_DURATION''
     ((emit_finish ^^ Suc n) (snd (snd (dispatch st resource an act resources rq (fresh hs))))) = 1"
proof -
  let ?meta = "fst (getActionMetadata st resource an act Map.empty resources)"
  let ?w = "snd (snd (dispatch st resource an act resources rq (fresh hs)))"
  have rk: "meta_resourceKey ?meta = [res_name resource @ ''-'' @ an, ''http'']"
    by (simp add: getActionMetadata_def Let_def)
  have none: "timed ''HTTP_API_DURATION'' ?w = 0"
    by (simp add: dispatch_eq handleRequest_frame) (simp add: timed_def fresh_def)
  have one: "finishOnce ?w =
     [RecordTimer (Timer [res_name resource @ ''-'' @ an, ''http'', ''duration'']) ''HTTP_API_DURATION'']"
    by (simp add: dispatch_eq handleRequest_frame rk) (simp add: fresh_def)
  have "timed ''HTTP_API_DURATION'' ((emit_finish ^^ Suc n) ?w) = 1"
    by (simp only: emit_finish_again emit_finish_timed none one) simp
  with none one show ?thesis by simp
qed

section \<open>Route building\<close>

lemma indexOf_ge: "- 1 \<le> indexOf s t"
  by (induction s) (auto simp: Let_def)

lemma indexOf_zero: "indexOf s t = 0 \<longleftrightarrow> prefix t s"
proof (cases s)
  case Nil then show ?thesis by auto
next
  case (Cons c cs)
  have "- 1 \<le> indexOf cs t" by (rule indexOf_ge)
  then show ?thesis using Cons by (auto simp: Let_def)
qed

lemma indexOf_one: "indexOf s t = 1 \<longleftrightarrow> s \<noteq> [] \<and> \<not> prefix t s \<and> prefix t (tl s)"
proof (cases s)
  case Nil then show ?thesis by auto
next
  case (Cons c cs)
  have "- 1 \<le> indexOf cs t" by (rule indexOf_ge)
  then show ?thesis using Cons indexOf_zero [of cs t] by (auto simp: Let_def)
qed

lemma resourcePrefix_index:
  "resourcePrefix rn u = (if atIndex0or1 rn u then [] else rn)"
  by (cases u) (auto simp: resourcePrefix_def resourceIndex_def atIndex0or1_def indexOf_zero indexOf_one)

lemmas sample_defs = sampleState_def defaultConfig_def getWidget_def widgets_def alice_def always_def
lemmas join_defs = joinUrl_def cleanSegment_def

lemma sample_url:
  "buildActionUrl (sampleState provider defaultConfig) ''widgets'' ''get''
         (getWidget ''/widgets/:id'' h) widgets rs = Path ''/api/widgets/:id''"
  by (simp add: buildActionUrl_def sample_defs actionPrefix_def resourcePrefix_def
        resourceIndex_def join_defs Let_def)

text \<open>
  Claim C7, as amended. With no regular expression as url and no url strategy, the route
  is the transport's join of the prefix, the resource's \<open>urlPrefix\<close>, the resource name
  and the action's url, and the resource name is left out exactly when the url is a
  non-empty string in which the name stands at character index 0 or 1. Resource
  \<open>widgets\<close> with url \<open>/widgets/:id\<close> and the default configuration gives
  \<open>/api/widgets/:id\<close>.
\<close>

theorem default_url_heuristic:
  "(\<not> isRegExp (act_url act) \<and> cfg_urlStrategy (config st) = None \<longrightarrow>
      buildActionUrl st rn an act resource resources =
        Path (http_buildUrl st
                [actionPrefix st resource, orEmpty (res_urlPrefix resource),
                 if atIndex0or1 rn (act_url act) then [] else rn,
                 urlOrEmpty (act_url act)])) \<and>
   buildActionUrl (sampleState None defaultConfig) ''widgets'' ''get''
     (getWidget ''/widgets/:id'' h) widgets rs = Path ''/api/widgets/:id''"
  by (simp add: sample_url) (simp add: buildActionUrl_def resourcePrefix_index)

theorem default_url_heuristic_witness:
  "\<not> isRegExp (act_url (getWidget ''items'' (Returns JUndefined))) \<and>
   cfg_urlStrategy (config (sampleState None defaultConfig)) = None \<and>
   \<not> atIndex0or1 ''widgets'' (act_url (getWidget ''items'' (Returns JUndefined))) \<and>
   buildActionUrl (sampleState None defaultConfig) ''widgets'' ''list''
     (getWidget ''items'' (Returns JUndefined)) widgets [] = Path ''/api/widgets/items''"
  using default_url_heuristic [where act = "getWidget ''items'' (Returns JUndefined)"
      and st = "sampleState None defaultConfig" and rn = "''widgets''" and an = "''list''"
      and resource = widgets and resources = "[]"]
  by (simp add: sample_defs atIndex0or1_def actionPrefix_def join_defs)

text \<open>
  Claim C7 as stated fails in both directions. In \<open>a/widgets/:id\<close> the second path
  segment is the resource name, and the name is added all the same; in
  \<open>xwidgets/:id\<close> no segment begins with the name, and the name is left out.
\<close>

theorem segment_reading_counterexample:
  "claimedOmission ''widgets'' (UrlString ''a/widgets/:id'') \<and>
   resourcePrefix ''widgets'' (UrlString ''a/widgets/:id'') = ''widgets'' \<and>
   buildActionUrl (sampleState None defaultConfig) ''widgets'' ''get''
     (getWidget ''a/widgets/:id'' (Returns JUndefined)) widgets [] = Path ''/api/widgets/a/widgets/:id'' \<and>
   \<not> claimedOmission ''widgets'' (UrlString ''xwidgets/:id'') \<and>
   resourcePrefix ''widgets'' (UrlString ''xwidgets/:id'') = [] \<and>
   buildActionUrl (sampleState None defaultConfig) ''widgets'' ''get''
     (getWidget ''xwidgets/:id'' (Returns JUndefined)) widgets [] = Path ''/api/xwidgets/:id''"
  by (simp add: claimedOmission_def resourcePrefix_def resourceIndex_def buildActionUrl_def
        sample_defs actionPrefix_def join_defs Let_def)

text \<open>
  The test for a regular expression comes before the strategy: a url that is one gives
  the prefixed expression, whatever strategy is configured.
\<close>

lemma regexp_url_comes_first:
  "cfg_urlStrategy (config (sampleState None versioned)) \<noteq> None \<and>
   buildActionUrl (sampleState None versioned) ''widgets'' ''get''
     ((getWidget [] (Returns JUndefined))\<lparr>act_url := UrlRegExp ''^/widgets/(.*)''\<rparr>) widgets [] =
     PrefixedRegExp ''/v1'' ''^/widgets/(.*)''"
  by (simp add: buildActionUrl_def sample_defs versioned_def actionPrefix_def join_defs)

text \<open>
  Claim C8. In the strategy branch of \<open>buildActionUrl\<close>, reached when the url is no
  regular expression and a url strategy is configured, the strategy is called with the
  resource name, the action name, the action and the resources; when the url it returns
  starts with the join of the configured \<open>urlPrefix\<close> and \<open>apiPrefix\<close> the route is
  built from that url under an empty prefix, otherwise under the computed prefix.
\<close>

theorem strategy_url_not_prefixed_twice:
  assumes "\<not> isRegExp (act_url act)" and "cfg_urlStrategy (config st) = Some urlStrategy"
  shows "buildActionUrl st rn an act resource resources =
     Path (http_buildUrl st
       [if prefix (http_buildUrl st [orEmpty (cfg_urlPrefix (config st)), orEmpty (cfg_apiPrefix (config st))])
             (urlStrategy rn an act resources)
        then [] else actionPrefix st resource,
        urlStrategy rn an act resources])"
  using assms by (simp add: buildActionUrl_def hasPrefix_def Let_def indexOf_zero)

theorem strategy_url_not_prefixed_twice_witness:
  "buildActionUrl (sampleState None versioned) ''widgets'' ''get''
     (getWidget [] (Returns JUndefined)) widgets [] = Path ''/v1/widgets/get'' \<and>
   buildActionUrl (sampleState None versioned) ''widgets'' ''list''
     (getWidget [] (Returns JUndefined)) widgets [] = Path ''/v1/widgets/list''"
  using strategy_url_not_prefixed_twice [where act = "getWidget [] (Returns JUndefined)"
      and st = "sampleState None versioned" and rn = "''widgets''" and an = "''get''"
      and resource = widgets and resources = "[]"]
    strategy_url_not_prefixed_twice [where act = "getWidget [] (Returns JUndefined)"
      and st = "sampleState None versioned" and rn = "''widgets''" and an = "''list''"
      and resource = widgets and resources = "[]"]
  by (simp add: sample_defs versioned_def actionPrefix_def join_defs)

section \<open>Result normalization\<close>

lemma respond_falsy:
  assumes "act_handle act resource \<lparr>env_req = rq, env_metricKey = meta_metricKey meta\<rparr> = Returns v"
    and "\<not> truthy v"
  shows "respond st meta rq resource act w =
     (Inr (), w\<lparr>events := events w @ [NewEnvelope (meta_metricKey meta), Handle]\<rparr>)"
  using assms by (simp add: respond_returns forwarded_def)

text \<open>
  Claim C4 as stated fails for a plain value that is falsy: a handler that returns
  \<open>false\<close> or \<open>0\<close>, neither of them deferred, has nothing passed to the envelope's
  outcome handler.
\<close>

theorem plain_result_counterexample:
  "\<not> hasThen (JBool False) \<and>
   returned (snd (respond (sampleState None defaultConfig) sampleMeta alice widgets
                    (getWidget ''/widgets/:id'' (Returns (JBool False))) (fresh False))) = [] \<and>
   \<not> hasThen (JNum 0) \<and>
   returned (snd (respond (sampleState None defaultConfig) sampleMeta alice widgets
                    (getWidget ''/widgets/:id'' (Returns (JNum 0))) (fresh False))) = []"
  by (simp add: respond_falsy getWidget_def hasThen_def returned_def fresh_def)

text \<open>
  Claim C4, as amended. When the handler returns a deferred value, the value it is
  fulfilled with and the value it is rejected with reach \<open>envelope.handleReturn\<close>
  through the same continuation, with the same effect; a truthy value that is not
  deferred is passed to \<open>handleReturn\<close> directly; when the handler returns nothing,
  \<open>handleReturn\<close> is not called.
\<close>

theorem result_normalization:
  assumes "act_handle act resource \<lparr>env_req = rq, env_metricKey = meta_metricKey meta\<rparr> = Returns v"
  shows "(\<forall>x. v = JThenable (Fulfilled x) \<or> v = JThenable (Rejected x) \<longrightarrow>
            respond st meta rq resource act w =
              (Inr (), emit (HandleReturn x) (emit Handle (emit (NewEnvelope (meta_metricKey meta)) w)))) \<and>
         (truthy v \<and> \<not> hasThen v \<longrightarrow>
            respond st meta rq resource act w =
              (Inr (), emit (HandleReturn v) (emit Handle (emit (NewEnvelope (meta_metricKey meta)) w)))) \<and>
         (v = JUndefined \<longrightarrow>
            respond st meta rq resource act w =
              (Inr (), emit Handle (emit (NewEnvelope (meta_metricKey meta)) w)))"
proof -
  have 1: "v = JThenable (Fulfilled x) \<or> v = JThenable (Rejected x) \<Longrightarrow>
            respond st meta rq resource act w =
              (Inr (), emit (HandleReturn x) (emit Handle (emit (NewEnvelope (meta_metricKey meta)) w)))" for x
    using assms by (auto simp: respond_returns forwarded_def emit_def)
  have 2: "truthy v \<and> \<not> hasThen v \<Longrightarrow>
            respond st meta rq resource act w =
              (Inr (), emit (HandleReturn v) (emit Handle (emit (NewEnvelope (meta_metricKey meta)) w)))"
    using assms by (auto simp: respond_returns forwarded_def emit_def hasThen_def)
  have 3: "v = JUndefined \<Longrightarrow>
            respond st meta rq resource act w =
              (Inr (), emit Handle (emit (NewEnvelope (meta_metricKey meta)) w))"
    using assms by (simp add: respond_returns forwarded_def emit_def)
  from 1 2 3 show ?thesis by blast
qed

theorem result_normalization_witness:
  "returned (snd (respond (sampleState None defaultConfig) sampleMeta alice widgets
      (getWidget ''/widgets/:id'' (Returns (JThenable (Fulfilled (JStr ''done''))))) (fresh False))) = [JStr ''done''] \<and>
   returned (snd (respond (sampleState None defaultConfig) sampleMeta alice widgets
      (getWidget ''/widgets/:id'' (Returns (JThenable (Rejected (JError ''failed''))))) (fresh False))) = [JError ''failed''] \<and>
   returned (snd (respond (sampleState None defaultConfig) sampleMeta alice widgets
      (getWidget ''/widgets/:id'' (Returns (JObject ''widget''))) (fresh False))) = [JObject ''widget''] \<and>
   returned (snd (respond (sampleState None defaultConfig) sampleMeta alice widgets
      (getWidget ''/widgets/:id'' (Returns JUndefined)) (fresh False))) = []"
  using
    result_normalization [where act = "getWidget ''/widgets/:id'' (Returns (JThenable (Fulfilled (JStr ''done''))))"
      and resource = widgets and rq = alice and meta = sampleMeta and st = "sampleState None defaultConfig"
      and w = "fresh False" and v = "JThenable (Fulfilled (JStr ''done''))"]
    result_normalization [where act = "getWidget ''/widgets/:id'' (Returns (JThenable (Rejected (JError ''failed''))))"
      and resource = widgets and rq = alice and meta = sampleMeta and st = "sampleState None defaultConfig"
      and w = "fresh False" and v = "JThenable (Rejected (JError ''failed''))"]
    result_normalization [where act = "getWidget ''/widgets/:id'' (Returns (JObject ''widget''))"
      and resource = widgets and rq = alice and meta = sampleMeta and st = "sampleState None defaultConfig"
      and w = "fresh False" and v = "JObject ''widget''"]
    result_normalization [where act = "getWidget ''/widgets/:id'' (Returns JUndefined)"
      and resource = widgets and rq = alice and meta = sampleMeta and st = "sampleState None defaultConfig"
      and w = "fresh False" and v = "JUndefined"]
  by (simp add: getWidget_def hasThen_def returned_def fresh_def emit_def)

lemma handleRequest_cong:
  assumes "\<And>rq' w'. respond st meta rq' resource act w' = respond st meta rq' resource act' w'"
    and "act_method act = act_method act'"
  shows "handleRequest st resource an act meta rq w = handleRequest st resource an act' meta rq w"
proof -
  have r: "respond st meta rq' resource act = respond st meta rq' resource act'" for rq'
    using assms(1) by (simp add: fun_eq_iff)
  have "route_onPermission st meta rq' resource act = route_onPermission st meta rq' resource act'" for rq'
    by (simp add: route_onPermission_def fun_eq_iff r assms(2))
  then show ?thesis
    by (simp add: handleRequest_def r Let_def split: prod.splits sum.splits)
qed

text \<open>
  Claim C10. A handler that returns \<open>false\<close>, \<open>0\<close>, the empty string, \<open>null\<close> or
  \<open>undefined\<close> has nothing passed to \<open>envelope.handleReturn\<close>: \<open>respond\<close> only
  builds the envelope and calls the handler, and the whole route callback behaves as it
  does for the handler that returns nothing.
\<close>

theorem falsy_result_not_forwarded:
  assumes "\<And>env. act_handle act resource env = Returns v"
    and "v \<in> {JBool False, JNum 0, JStr [], JNull, JUndefined}"
  shows "respond st meta rq resource act w =
           (Inr (), emit Handle (emit (NewEnvelope (meta_metricKey meta)) w)) \<and>
         returned (snd (respond st meta rq resource act w)) = returned w \<and>
         handleRequest st resource an act meta rq w =
           handleRequest st resource an (act\<lparr>act_handle := \<lambda>_ _. Returns JUndefined\<rparr>) meta rq w"
proof -
  from assms(2) have falsy: "\<not> truthy v" by auto
  have a: "respond st meta rq' resource act w' =
           (Inr (), emit Handle (emit (NewEnvelope (meta_metricKey meta)) w'))" for rq' w'
    using assms(1) falsy by (simp add: respond_falsy emit_def)
  have b: "respond st meta rq' resource (act\<lparr>act_handle := \<lambda>_ _. Returns JUndefined\<rparr>) w' =
           (Inr (), emit Handle (emit (NewEnvelope (meta_metricKey meta)) w'))" for rq' w'
    by (simp add: respond_falsy emit_def)
  have c: "handleRequest st resource an act meta rq w =
           handleRequest st resource an (act\<lparr>act_handle := \<lambda>_ _. Returns JUndefined\<rparr>) meta rq w"
    by (rule handleRequest_cong) (simp_all add: a b)
  from a [of rq w] c show ?thesis by (simp add: returned_def emit_def)
qed

theorem falsy_result_not_forwarded_witness:
  "returned (snd (respond (sampleState None defaultConfig) sampleMeta alice widgets
      (getWidget ''/widgets/:id'' (Returns (JNum 0))) (fresh False))) = returned (fresh False) \<and>
   returned (snd (respond (sampleState None defaultConfig) sampleMeta alice widgets
      (getWidget ''/widgets/:id'' (Returns (JStr []))) (fresh False))) = returned (fresh False)"
  using
    falsy_result_not_forwarded [where act = "getWidget ''/widgets/:id'' (Returns (JNum 0))"
      and resource = widgets and rq = alice and meta = sampleMeta and st = "sampleState None defaultConfig"
      and w = "fresh False" and v = "JNum 0" and an = "''get''"]
    falsy_result_not_forwarded [where act = "getWidget ''/widgets/:id'' (Returns (JStr []))"
      and resource = widgets and rq = alice and meta = sampleMeta and st = "sampleState None defaultConfig"
      and w = "fresh False" and v = "JStr []" and an = "''get''"]
  by (simp add: getWidget_def returned_def emit_def)

section \<open>The dispatcher with and without a provider\<close>

lemma handleRequest_no_provider:
  assumes "auth st = None"
  shows "handleRequest st resource an act meta rq w =
     (case respond st meta (attach st resource an meta rq) resource act (started meta w) of
        (Inl e, w3) \<Rightarrow> (Threw e, attach st resource an meta rq, w3)
      | (Inr u, w3) \<Rightarrow> (Returned, attach st resource an meta rq, w3))"
  using assms
  by (simp add: handleRequest_def getTimer_def Let_def attach_def started_def
        split: prod.splits sum.splits)

lemma handleRequest_provider:
  assumes "auth st = Some cp"
  shows "handleRequest st resource an act meta rq w =
     (case checkPermissionFor st (req_user rq) (req_context rq) (meta_alias meta)
             (authAttempted (started meta w)) of
        (Inl e, w3) \<Rightarrow> (Threw e, attach st resource an meta rq, w3)
      | (Inr p, w3) \<Rightarrow>
          (case promise_then p (Some (route_onPermission st meta (attach st resource an meta rq) resource act)) None w3 of
             (p', w4) \<Rightarrow> (Chained p', attach st resource an meta rq, w4)))"
  using assms
  by (simp add: handleRequest_def getTimer_def Let_def attach_def started_def
        split: prod.splits sum.splits)

lemma meta_fields:
  "meta_alias (fst (getActionMetadata st resource an act rts resources)) = buildActionAlias (res_name resource) an"
  "meta_resourceKey (fst (getActionMetadata st resource an act rts resources)) = [res_name resource @ ''-'' @ an, ''http'']"
  "meta_metricKey (fst (getActionMetadata st resource an act rts resources)) = [metrics_prefix st, res_name resource @ ''-'' @ an, ''http'']"
  "meta_handleErrors (fst (getActionMetadata st resource an act rts resources)) = cfg_handleRouteErrors (config st)"
  by (simp_all add: getActionMetadata_def Let_def)

lemma url_auth:
  "actionPrefix (st\<lparr>auth := a\<rparr>) resource = actionPrefix st resource"
  "hasPrefix (st\<lparr>auth := a\<rparr>) u = hasPrefix st u"
  by (simp_all add: actionPrefix_def hasPrefix_def Let_def cong: option.case_cong)

lemma buildActionUrl_auth:
  "buildActionUrl (st\<lparr>auth := a\<rparr>) rn an act resource resources =
   buildActionUrl st rn an act resource resources"
  by (simp add: buildActionUrl_def url_auth Let_def cong: option.case_cong if_cong)

lemma meta_auth:
  "getActionMetadata (st\<lparr>auth := a\<rparr>) resource an act rts resources =
   getActionMetadata st resource an act rts resources"
  by (simp add: getActionMetadata_def buildActionUrl_auth Let_def)

text \<open>
  Claim C9. On a route wired with no authorization provider the permission check
  attached to the request is undefined and the route callback chains no promise: it
  calls \<open>respond\<close> itself, so the handler is applied to the resource and a fresh
  envelope right after the duration timer is started, and what the callback does next
  is decided by what that application returns or throws. The handler is called once, no
  authorization counter is recorded and no response is sent by the adapter, so no 403.
\<close>

theorem no_provider_no_gate:
  assumes "auth st = None"
  shows
    "let meta = fst (getActionMetadata st resource an act Map.empty resources);
         envelope = \<lparr>env_req = attach st resource an meta rq, env_metricKey = meta_metricKey meta\<rparr>;
         answer = act_handle act resource envelope;
         run = dispatch st resource an act resources rq (fresh hs)
     in getPermissionCheck st rq = None \<and>
        req_checkPermission (fst (snd run)) = None \<and>
        (\<forall>p. fst run \<noteq> Chained p) \<and>
        fst run =
          (case answer of
             Returns v \<Rightarrow> Returned
           | Throws err \<Rightarrow>
               if cfg_handleRouteErrors (config st)
               then (case stack err of Inl e \<Rightarrow> Threw e | Inr s \<Rightarrow> Returned)
               else Threw err) \<and>
        events (snd (snd run)) =
          [TimerStart (Timer [res_name resource @ ''-'' @ an, ''http'', ''duration'']),
           NewEnvelope [metrics_prefix st, res_name resource @ ''-'' @ an, ''http''],
           Handle] @
          map HandleReturn
            (case answer of
               Returns v \<Rightarrow> forwarded v
             | Throws err \<Rightarrow>
                 if cfg_handleRouteErrors (config st)
                 then (case stack err of Inl e \<Rightarrow> [] | Inr s \<Rightarrow> forwarded err)
                 else []) \<and>
        take 3 (events (snd (snd run))) =
          [TimerStart (Timer [res_name resource @ ''-'' @ an, ''http'', ''duration'']),
           NewEnvelope [metrics_prefix st, res_name resource @ ''-'' @ an, ''http''],
           Handle] \<and>
        handled (snd (snd run)) = 1 \<and>
        (\<forall>c. counted c (snd (snd run)) = 0) \<and>
        sent (snd (snd run)) = []"
proof -
  let ?meta = "fst (getActionMetadata st resource an act Map.empty resources)"
  let ?rq = "attach st resource an ?meta rq"
  let ?env = "\<lparr>env_req = ?rq, env_metricKey = meta_metricKey ?meta\<rparr>"
  let ?w = "started ?meta (fresh hs)"
  have check: "getPermissionCheck st rq = None"
    using assms by (simp add: getPermissionCheck_def)
  have d: "dispatch st resource an act resources rq (fresh hs) =
     (case respond st ?meta ?rq resource act ?w of
        (Inl e, w3) \<Rightarrow> (Threw e, ?rq, w3)
      | (Inr u, w3) \<Rightarrow> (Returned, ?rq, w3))"
    using assms by (simp add: dispatch_eq handleRequest_no_provider)
  have he: "meta_handleErrors ?meta = cfg_handleRouteErrors (config st)"
    by (simp add: meta_fields)
  show ?thesis
  proof (cases "act_handle act resource ?env")
    case (Returns v)
    from respond_returns [OF this, of st ?w] Returns show ?thesis
      unfolding Let_def d
      by (simp add: check attach_def started_def meta_fields fresh_def emit_def res_once_finish_def
            handled_def counted_def sent_def filter_map comp_def)
  next
    case (Throws err)
    show ?thesis
    proof (cases "cfg_handleRouteErrors (config st)")
      case False
      with he have "\<not> meta_handleErrors ?meta" by simp
      from respond_propagates [OF Throws this, of st ?w] Throws False show ?thesis
        unfolding Let_def d
        by (simp add: check attach_def started_def meta_fields fresh_def emit_def res_once_finish_def
              handled_def counted_def sent_def)
    next
      case True
      with he have on: "meta_handleErrors ?meta" by simp
      show ?thesis
      proof (cases "stack err")
        case (Inl e)
        from respond_catch_fails [OF Throws on this, of st ?w] Throws True Inl show ?thesis
          unfolding Let_def d
          by (simp add: check attach_def started_def meta_fields fresh_def emit_def res_once_finish_def
                handled_def counted_def sent_def)
      next
        case (Inr s)
        from respond_absorbs [OF Throws on this, of st ?w] Throws True Inr show ?thesis
          unfolding Let_def d
          by (simp add: check attach_def started_def meta_fields fresh_def emit_def res_once_finish_def
                handled_def counted_def sent_def filter_map comp_def)
      qed
    qed
  qed
qed


lemma settle_undefined: "settle (Inr JUndefined, w) = (Fulfilled JUndefined, w)"
  by (simp add: settle_def)

lemma handleRequest_decided:
  assumes "auth st = Some cp"
    and "cp (req_user rq) (meta_alias meta) (req_context rq) = ProviderReturns (Fulfilled v)"
    and "resolve v = Fulfilled pass"
  shows "handleRequest st resource an act meta rq w =
     (case settle (route_onPermission st meta (attach st resource an meta rq) resource act pass
                     (emit (TimerRecord AuthorizationTimer ''HTTP_AUTHORIZATION_DURATION'')
                        (gateStart (req_user rq) (meta_alias meta) (authAttempted (started meta w))))) of
        (p', w4) \<Rightarrow> (Chained p', attach st resource an meta rq, w4))"
  using assms by (simp add: handleRequest_provider gate_fulfilled)

lemma handleRequest_failed:
  assumes "auth st = Some cp"
    and "cp (req_user rq) (meta_alias meta) (req_context rq) = ProviderReturns (Rejected err)"
    and "stack err = Inr s"
  shows "handleRequest st resource an act meta rq w =
     (case settle (route_onPermission st meta (attach st resource an meta rq) resource act (JBool False)
                     (emit (TimerRecord AuthorizationTimer ''HTTP_AUTHORIZATION_DURATION'')
                        (emit (CounterRecord authorizationErrors 1 ''HTTP_AUTHORIZATION_ERRORS'')
                           (log_error ''Error during check permissions: %s'' [s]
                              (gateStart (req_user rq) (meta_alias meta) (authAttempted (started meta w))))))) of
        (p', w4) \<Rightarrow> (Chained p', attach st resource an meta rq, w4))"
  using assms by (simp add: handleRequest_provider gate_rejected)

lemma handleRequest_thrown:
  assumes "auth st = Some cp"
    and "cp (req_user rq) (meta_alias meta) (req_context rq) = ProviderThrows e"
  shows "handleRequest st resource an act meta rq w =
     (Threw e, attach st resource an meta rq,
      gateStart (req_user rq) (meta_alias meta) (authAttempted (started meta w)))"
  using assms by (simp add: handleRequest_provider gate_throws)

lemma denial:
  assumes "\<not> truthy pass"
  shows "settle (route_onPermission st meta rq resource act pass w) =
     (Fulfilled JUndefined,
      w\<lparr>events := events w @
            CounterRecord authorizationRejections 1 ''HTTP_AUTHORIZATION_REJECTED'' #
            (if headerSent w then [] else [Send 403 ''User lacks sufficient permissions'']),
        logs := logs w @
            [Log Debug ''User %s was denied HTTP activation of action %s (%s %s)''
               [getUserString (req_user rq), meta_alias meta, act_method act,
                show_route_url (meta_url meta)]],
        statusCode := (if headerSent w then statusCode w else 403),
        headerSent := True\<rparr>)"
  using assms
  by (simp add: route_onPermission_def Let_def settle_def authRejected_def record_counter_def
        emit_def log_debug_def res_send_def res_status_def)


lemmas run_defs = dispatch_def wireupAction_def getActionMetadata_def handleRequest_def
  getTimer_def getPermissionCheck_def checkPermissionFor_def gate_onError_def gate_onPermission_def
  route_onPermission_def respond_def respond_invoke_def onResult_def getEnvelope_def settle_def
  authAttempted_def authGranted_def authRejected_def
  emit_def log_debug_def log_error_def record_counter_def record_timer_def
  res_status_def res_send_def res_once_finish_def fresh_def
  buildActionUrl_def buildActionAlias_def actionPrefix_def resourcePrefix_def resourceIndex_def
  getUserString_def joinUrl_def cleanSegment_def
  sampleState_def defaultConfig_def getWidget_def widgets_def alice_def always_def
  counted_def timed_def handled_def returned_def sent_def Let_def

text \<open>
  Claim C2, at a request the provider denies: the handler is not called, the reject
  counter records once and one 403 with the fixed body is sent (none when the headers
  were already sent), but the attempt counter records twice, once in the route callback
  (\<open>meta.authAttempted()\<close>) and once more in \<open>checkPermissionFor\<close>.
\<close>

theorem denied_request_counts_two_attempts:
  "counted authorizationAttempts
     (snd (snd (dispatch (sampleState (always (ProviderReturns (Fulfilled (JBool False)))) defaultConfig)
                  widgets ''get'' (getWidget ''/widgets/:id'' (Returns (JObject ''widget''))) [] alice
                  (fresh False)))) = 2 \<and>
   counted authorizationRejections
     (snd (snd (dispatch (sampleState (always (ProviderReturns (Fulfilled (JBool False)))) defaultConfig)
                  widgets ''get'' (getWidget ''/widgets/:id'' (Returns (JObject ''widget''))) [] alice
                  (fresh False)))) = 1 \<and>
   handled
     (snd (snd (dispatch (sampleState (always (ProviderReturns (Fulfilled (JBool False)))) defaultConfig)
                  widgets ''get'' (getWidget ''/widgets/:id'' (Returns (JObject ''widget''))) [] alice
                  (fresh False)))) = 0 \<and>
   sent
     (snd (snd (dispatch (sampleState (always (ProviderReturns (Fulfilled (JBool False)))) defaultConfig)
                  widgets ''get'' (getWidget ''/widgets/:id'' (Returns (JObject ''widget''))) [] alice
                  (fresh False)))) = [(403, ''User lacks sufficient permissions'')] \<and>
   sent
     (snd (snd (dispatch (sampleState (always (ProviderReturns (Fulfilled (JBool False)))) defaultConfig)
                  widgets ''get'' (getWidget ''/widgets/:id'' (Returns (JObject ''widget''))) [] alice
                  (fresh True)))) = []"
  by (simp add: run_defs)

text \<open>
  Claim C3, at a request the provider grants: the handler is called once, the grant
  counter records once and no response is sent by the adapter, but the attempt counter
  records twice, as it does for a denied request.
\<close>

theorem granted_request_counts_two_attempts:
  "counted authorizationAttempts
     (snd (snd (dispatch (sampleState (always (ProviderReturns (Fulfilled (JBool True)))) defaultConfig)
                  widgets ''get'' (getWidget ''/widgets/:id'' (Returns (JObject ''widget''))) [] alice
                  (fresh False)))) = 2 \<and>
   counted authorizationGrants
     (snd (snd (dispatch (sampleState (always (ProviderReturns (Fulfilled (JBool True)))) defaultConfig)
                  widgets ''get'' (getWidget ''/widgets/:id'' (Returns (JObject ''widget''))) [] alice
                  (fresh False)))) = 1 \<and>
   handled
     (snd (snd (dispatch (sampleState (always (ProviderReturns (Fulfilled (JBool True)))) defaultConfig)
                  widgets ''get'' (getWidget ''/widgets/:id'' (Returns (JObject ''widget''))) [] alice
                  (fresh False)))) = 1 \<and>
   sent
     (snd (snd (dispatch (sampleState (always (ProviderReturns (Fulfilled (JBool True)))) defaultConfig)
                  widgets ''get'' (getWidget ''/widgets/:id'' (Returns (JObject ''widget''))) [] alice
                  (fresh False)))) = []"
  by (simp add: run_defs)

text \<open>
  The two paths of a handler exception that \<open>respond\<close> does not catch, for every
  request: to the transport without a provider, into the dropped promise behind a
  provider that grants.
\<close>

lemma handler_exception_reaches_transport:
  assumes "auth st = None"
    and "\<And>env. act_handle act resource env = Throws err"
    and "\<not> meta_handleErrors meta"
  shows "fst (handleRequest st resource an act meta rq w) = Threw err"
  using assms by (simp add: handleRequest_no_provider respond_propagates)

lemma handler_exception_rejects_dropped_promise:
  assumes "auth st = Some cp"
    and "cp (req_user rq) (meta_alias meta) (req_context rq) = ProviderReturns (Fulfilled v)"
    and "resolve v = Fulfilled pass" and "truthy pass"
    and "\<And>env. act_handle act resource env = Throws err"
    and "\<not> meta_handleErrors meta"
  shows "fst (handleRequest st resource an act meta rq w) = Chained (Rejected err)"
  using assms
  by (simp add: handleRequest_decided route_onPermission_def respond_propagates settle_def Let_def)

text \<open>
  Claim C5, at a handler that throws while \<open>handleRouteErrors\<close> is off. Without a
  provider the exception leaves the route callback for the transport. With a provider
  that grants, \<open>respond\<close> runs inside the continuation attached to the gate's promise:
  the exception rejects the promise that the callback has dropped, the transport sees
  nothing and no response is sent. With \<open>handleRouteErrors\<close> on, the error is passed
  to \<open>envelope.handleReturn\<close>.
\<close>

theorem swallowed_handler_exception:
  "fst (dispatch (sampleState None defaultConfig)
          widgets ''get'' (getWidget ''/widgets/:id'' (Throws (JError ''boom''))) [] alice
          (fresh False)) = Threw (JError ''boom'') \<and>
   fst (dispatch (sampleState (always (ProviderReturns (Fulfilled (JBool True)))) defaultConfig)
          widgets ''get'' (getWidget ''/widgets/:id'' (Throws (JError ''boom''))) [] alice
          (fresh False)) = Chained (Rejected (JError ''boom'')) \<and>
   sent (snd (snd (dispatch (sampleState (always (ProviderReturns (Fulfilled (JBool True)))) defaultConfig)
          widgets ''get'' (getWidget ''/widgets/:id'' (Throws (JError ''boom''))) [] alice
          (fresh False)))) = [] \<and>
   returned (snd (snd (dispatch (sampleState (always (ProviderReturns (Fulfilled (JBool True)))) defaultConfig)
          widgets ''get'' (getWidget ''/widgets/:id'' (Throws (JError ''boom''))) [] alice
          (fresh False)))) = [] \<and>
   returned (snd (snd (dispatch (sampleState (always (ProviderReturns (Fulfilled (JBool True))))
                                   (defaultConfig\<lparr>cfg_handleRouteErrors := True\<rparr>))
          widgets ''get'' (getWidget ''/widgets/:id'' (Throws (JError ''boom''))) [] alice
          (fresh False)))) = [JError ''boom'']"
  by (simp add: run_defs)

text \<open>
  Claim C1 as stated fails where the call to the provider throws: the exception leaves
  \<open>checkPermissionFor\<close> and the route callback, nothing resolves to false, and neither
  the error counter nor the authorization timer records. It fails as well for a
  rejection without a reason, where reading \<open>err.stack\<close> throws inside \<open>onError\<close>.
\<close>

theorem throwing_provider_counterexample:
  "fst (checkPermissionFor (sampleState (always (ProviderThrows (JError ''down''))) defaultConfig)
          (req_user alice) (req_context alice) ''widgets.get'' (fresh False)) = Inl (JError ''down'') \<and>
   fst (dispatch (sampleState (always (ProviderThrows (JError ''down''))) defaultConfig)
          widgets ''get'' (getWidget ''/widgets/:id'' (Returns (JObject ''widget''))) [] alice
          (fresh False)) = Threw (JError ''down'') \<and>
   counted authorizationErrors
     (snd (snd (dispatch (sampleState (always (ProviderThrows (JError ''down''))) defaultConfig)
          widgets ''get'' (getWidget ''/widgets/:id'' (Returns (JObject ''widget''))) [] alice
          (fresh False)))) = 0 \<and>
   timed ''HTTP_AUTHORIZATION_DURATION''
     (snd (snd (dispatch (sampleState (always (ProviderThrows (JError ''down''))) defaultConfig)
          widgets ''get'' (getWidget ''/widgets/:id'' (Returns (JObject ''widget''))) [] alice
          (fresh False)))) = 0 \<and>
   sent
     (snd (snd (dispatch (sampleState (always (ProviderThrows (JError ''down''))) defaultConfig)
          widgets ''get'' (getWidget ''/widgets/:id'' (Returns (JObject ''widget''))) [] alice
          (fresh False)))) = [] \<and>
   fst (checkPermissionFor (sampleState (always (ProviderReturns (Rejected JUndefined))) defaultConfig)
          (req_user alice) (req_context alice) ''widgets.get'' (fresh False)) = Inr (Rejected typeError) \<and>
   counted authorizationErrors
     (snd (checkPermissionFor (sampleState (always (ProviderReturns (Rejected JUndefined))) defaultConfig)
          (req_user alice) (req_context alice) ''widgets.get'' (fresh False))) = 0"
  by (simp add: run_defs)


lemma readable: "err \<noteq> JUndefined \<Longrightarrow> err \<noteq> JNull \<Longrightarrow> \<exists>s. stack err = Inr s"
  by (cases err) simp_all

text \<open>
  Claim C1, as amended. When the promise the provider returns rejects with a reason
  other than null and undefined, the gate resolves to false, records the error counter
  once and the authorization timer once, and the request is answered as the request of
  a provider that resolved false is: same outcome, same response, and a world that
  differs by the record of the error counter and the error line of the log only. When
  the call to the provider throws, the exception leaves the gate and the route callback.
\<close>

theorem provider_rejection_denies:
  assumes "auth st = Some cp"
  shows
    "let usr = req_user rq; ctx = req_context rq;
         target = buildActionAlias (res_name resource) an;
         gate = checkPermissionFor st usr ctx target (fresh hs);
         failed = dispatch st resource an act resources rq (fresh hs);
         denied = dispatch (st\<lparr>auth := always (ProviderReturns (Fulfilled (JBool False)))\<rparr>)
                    resource an act resources rq (fresh hs)
     in (cp usr target ctx = ProviderReturns (Rejected err) \<and> err \<noteq> JUndefined \<and> err \<noteq> JNull \<longrightarrow>
           fst gate = Inr (Fulfilled (JBool False)) \<and>
           counted authorizationErrors (snd gate) = 1 \<and>
           timed ''HTTP_AUTHORIZATION_DURATION'' (snd gate) = 1 \<and>
           fst failed = Chained (Fulfilled JUndefined) \<and>
           fst denied = Chained (Fulfilled JUndefined) \<and>
           counted authorizationErrors (snd (snd failed)) = 1 \<and>
           counted authorizationErrors (snd (snd denied)) = 0 \<and>
           timed ''HTTP_AUTHORIZATION_DURATION'' (snd (snd failed)) = 1 \<and>
           handled (snd (snd failed)) = 0 \<and>
           sent (snd (snd failed)) = (if hs then [] else [(403, ''User lacks sufficient permissions'')]) \<and>
           sameButForError (snd (snd failed)) (snd (snd denied))) \<and>
        (cp usr target ctx = ProviderThrows e \<longrightarrow>
           fst gate = Inl e \<and> fst failed = Threw e)"
proof -
  let ?target = "buildActionAlias (res_name resource) an"
  let ?meta = "fst (getActionMetadata st resource an act Map.empty resources)"
  let ?st' = "st\<lparr>auth := always (ProviderReturns (Fulfilled (JBool False)))\<rparr>"
  let ?gate = "checkPermissionFor st (req_user rq) (req_context rq) ?target (fresh hs)"
  let ?failed = "dispatch st resource an act resources rq (fresh hs)"
  let ?denied = "dispatch ?st' resource an act resources rq (fresh hs)"
  have denied: "?denied =
      (case settle (route_onPermission ?st' ?meta (attach ?st' resource an ?meta rq) resource act (JBool False)
                     (emit (TimerRecord AuthorizationTimer ''HTTP_AUTHORIZATION_DURATION'')
                        (gateStart (req_user rq) ?target (authAttempted (started ?meta (fresh hs)))))) of
        (p', w4) \<Rightarrow> (Chained p', attach ?st' resource an ?meta rq, w4))"
    using handleRequest_decided [of ?st' _ rq ?meta "JBool False" "JBool False" resource an act "fresh hs"]
    by (simp add: dispatch_eq meta_auth meta_fields always_def)
  have rejected: "fst ?gate = Inr (Fulfilled (JBool False)) \<and>
           counted authorizationErrors (snd ?gate) = 1 \<and>
           timed ''HTTP_AUTHORIZATION_DURATION'' (snd ?gate) = 1 \<and>
           fst ?failed = Chained (Fulfilled JUndefined) \<and>
           fst ?denied = Chained (Fulfilled JUndefined) \<and>
           counted authorizationErrors (snd (snd ?failed)) = 1 \<and>
           counted authorizationErrors (snd (snd ?denied)) = 0 \<and>
           timed ''HTTP_AUTHORIZATION_DURATION'' (snd (snd ?failed)) = 1 \<and>
           handled (snd (snd ?failed)) = 0 \<and>
           sent (snd (snd ?failed)) = (if hs then [] else [(403, ''User lacks sufficient permissions'')]) \<and>
           sameButForError (snd (snd ?failed)) (snd (snd ?denied))"
    if rej: "cp (req_user rq) ?target (req_context rq) = ProviderReturns (Rejected err)"
      and "err \<noteq> JUndefined" and "err \<noteq> JNull"
  proof -
    from that obtain s where s: "stack err = Inr s" using readable by blast
    have gate: "?gate =
       (Inr (Fulfilled (JBool False)),
        emit (TimerRecord AuthorizationTimer ''HTTP_AUTHORIZATION_DURATION'')
          (emit (CounterRecord authorizationErrors 1 ''HTTP_AUTHORIZATION_ERRORS'')
             (log_error ''Error during check permissions: %s'' [s]
                (gateStart (req_user rq) ?target (fresh hs)))))"
      using assms rej s by (rule gate_rejected)
    have failed: "?failed =
      (case settle (route_onPermission st ?meta (attach st resource an ?meta rq) resource act (JBool False)
                     (emit (TimerRecord AuthorizationTimer ''HTTP_AUTHORIZATION_DURATION'')
                        (emit (CounterRecord authorizationErrors 1 ''HTTP_AUTHORIZATION_ERRORS'')
                           (log_error ''Error during check permissions: %s'' [s]
                              (gateStart (req_user rq) ?target (authAttempted (started ?meta (fresh hs)))))))) of
        (p', w4) \<Rightarrow> (Chained p', attach st resource an ?meta rq, w4))"
      using handleRequest_failed [of st cp rq ?meta err s resource an act "fresh hs"] assms rej s
      by (simp add: dispatch_eq meta_fields)
    show ?thesis
      unfolding gate failed denied
      by (simp add: denial attach_def sameButForError_def gateStart_def started_def authAttempted_def
            record_counter_def emit_def log_error_def res_once_finish_def fresh_def
            counted_def timed_def handled_def sent_def)
  qed
  have thrown: "fst ?gate = Inl e \<and> fst ?failed = Threw e"
    if thr: "cp (req_user rq) ?target (req_context rq) = ProviderThrows e"
    using handleRequest_thrown [of st cp rq ?meta e resource an act "fresh hs"] assms thr
    by (simp add: dispatch_eq meta_fields gate_throws)
  from rejected thrown show ?thesis by (simp add: Let_def)
qed


theorem provider_rejection_denies_witness:
  "fst (checkPermissionFor (sampleState (always (ProviderReturns (Rejected (JError ''down'')))) defaultConfig)
          (req_user alice) (req_context alice) (buildActionAlias (res_name widgets) ''get'') (fresh False)) =
     Inr (Fulfilled (JBool False)) \<and>
   counted authorizationErrors
     (snd (snd (dispatch (sampleState (always (ProviderReturns (Rejected (JError ''down'')))) defaultConfig)
                  widgets ''get'' (getWidget ''/widgets/:id'' (Returns (JObject ''widget''))) [] alice
                  (fresh False)))) = 1 \<and>
   sent
     (snd (snd (dispatch (sampleState (always (ProviderReturns (Rejected (JError ''down'')))) defaultConfig)
                  widgets ''get'' (getWidget ''/widgets/:id'' (Returns (JObject ''widget''))) [] alice
                  (fresh False)))) = [(403, ''User lacks sufficient permissions'')] \<and>
   fst (dispatch (sampleState (always (ProviderThrows (JError ''down''))) defaultConfig)
          widgets ''get'' (getWidget ''/widgets/:id'' (Returns (JObject ''widget''))) [] alice
          (fresh True)) = Threw (JError ''down'')"
  using
    provider_rejection_denies [where st = "sampleState (always (ProviderReturns (Rejected (JError ''down'')))) defaultConfig"
      and cp = "\<lambda>_ _ _. ProviderReturns (Rejected (JError ''down''))" and rq = alice
      and resource = widgets and an = "''get''" and hs = False and err = "JError ''down''"
      and act = "getWidget ''/widgets/:id'' (Returns (JObject ''widget''))" and resources = "[]"]
    provider_rejection_denies [where st = "sampleState (always (ProviderThrows (JError ''down''))) defaultConfig"
      and cp = "\<lambda>_ _ _. ProviderThrows (JError ''down'')" and rq = alice
      and resource = widgets and an = "''get''" and hs = True and e = "JError ''down''"
      and act = "getWidget ''/widgets/:id'' (Returns (JObject ''widget''))" and resources = "[]"]
  by (simp add: Let_def sampleState_def always_def)

theorem no_provider_no_gate_witness:
  "auth (sampleState None defaultConfig) = None \<and>
   getPermissionCheck (sampleState None defaultConfig) alice = None \<and>
   fst (dispatch (sampleState None defaultConfig) widgets ''get''
          (getWidget ''/widgets/:id'' (Returns (JObject ''widget''))) [] alice
          (fresh False)) = Returned \<and>
   events (snd (snd (dispatch (sampleState None defaultConfig) widgets ''get''
                       (getWidget ''/widgets/:id'' (Returns (JObject ''widget''))) [] alice
                       (fresh False)))) =
     [TimerStart (Timer [''widgets-get'', ''http'', ''duration'']),
      NewEnvelope [''autohost'', ''widgets-get'', ''http''],
      Handle, HandleReturn (JObject ''widget'')] \<and>
   handled (snd (snd (dispatch (sampleState None defaultConfig) widgets ''get''
                        (getWidget ''/widgets/:id'' (Returns (JObject ''widget''))) [] alice
                        (fresh False)))) = 1 \<and>
   counted authorizationAttempts
     (snd (snd (dispatch (sampleState None defaultConfig) widgets ''get''
                  (getWidget ''/widgets/:id'' (Returns (JObject ''widget''))) [] alice
                  (fresh False)))) = 0 \<and>
   sent (snd (snd (dispatch (sampleState None defaultConfig) widgets ''get''
                     (getWidget ''/widgets/:id'' (Returns (JObject ''widget''))) [] alice
                     (fresh False)))) = []"
  using no_provider_no_gate [where st = "sampleState None defaultConfig" and rq = alice
      and resource = widgets and an = "''get''" and hs = False
      and act = "getWidget ''/widgets/:id'' (Returns (JObject ''widget''))" and resources = "[]"]
  by (simp add: Let_def sampleState_def getWidget_def widgets_def forwarded_def)

lemma gate_attempts:
  "counted authorizationAttempts (snd (checkPermissionFor st usr ctx act w)) =
     Suc (counted authorizationAttempts w)"
proof -
  have start: "counted authorizationAttempts (gateStart usr act w) = Suc (counted authorizationAttempts w)"
    by (simp add: gateStart_def counted_def)
  show ?thesis
  proof (cases "auth st")
    case None
    then show ?thesis using start by (simp add: gate_no_provider)
  next
    case (Some cp)
    show ?thesis
    proof (cases "cp usr act ctx")
      case (ProviderThrows e)
      then show ?thesis using Some start by (simp add: gate_throws)
    next
      case (ProviderReturns p)
      show ?thesis
      proof (cases p)
        case (Fulfilled v)
        then show ?thesis using Some ProviderReturns
          by (simp add: gate_fulfilled emit_def gateStart_def counted_def)
      next
        case (Rejected err)
        then show ?thesis using Some ProviderReturns
          by (cases "stack err")
             (simp_all add: gate_rejected gate_rejected_unreadable emit_def log_error_def
                gateStart_def counted_def)
      next
        case Pending
        then show ?thesis using Some ProviderReturns start by (simp add: gate_pending)
      qed
    qed
  qed
qed

lemma counter_frame:
  "counted c (log_debug f a w) = counted c w"
  "counted c (res_send b (res_status code w)) = counted c w"
  "counted c (started meta w) = counted c w"
  "counted authorizationAttempts (authAttempted w) = Suc (counted authorizationAttempts w)"
  "counted authorizationAttempts (authGranted w) = counted authorizationAttempts w"
  "counted authorizationAttempts (authRejected w) = counted authorizationAttempts w"
  by (simp_all add: log_debug_def authAttempted_def authGranted_def authRejected_def started_def
        res_once_finish_def record_counter_def emit_def res_send_def res_status_def counted_def)

lemma onPermission_attempts:
  "counted authorizationAttempts (snd (route_onPermission st meta rq resource act pass w)) =
     counted authorizationAttempts w"
  by (simp add: onPermission_world respond_frame counter_frame)

text \<open>
  On a route with a provider the attempt counter records twice for every request,
  whatever the provider and the handler do.
\<close>

lemma attempts_recorded_twice:
  assumes "auth st = Some cp"
  shows "counted authorizationAttempts (snd (snd (handleRequest st resource an act meta rq w))) =
     counted authorizationAttempts w + 2"
proof -
  let ?Q = "counted authorizationAttempts"
  let ?w2 = "authAttempted (started meta w)"
  obtain r w3 where g: "checkPermissionFor st (req_user rq) (req_context rq) (meta_alias meta) ?w2 = (r, w3)"
    by (cases "checkPermissionFor st (req_user rq) (req_context rq) (meta_alias meta) ?w2")
  from gate_attempts [of st "req_user rq" "req_context rq" "meta_alias meta" ?w2] g
  have w3: "?Q w3 = ?Q w + 2" by (simp add: counter_frame)
  have cont: "?Q (snd (promise_then p (Some (route_onPermission st meta (attach st resource an meta rq) resource act)) None w3)) = ?Q w3" for p
    by (rule then_frame) (rule onPermission_attempts)
  show ?thesis
  proof (cases r)
    case (Inl e)
    with assms g w3 show ?thesis by (simp add: handleRequest_provider)
  next
    case (Inr p)
    obtain p' w4 where c: "promise_then p (Some (route_onPermission st meta (attach st resource an meta rq) resource act)) None w3 = (p', w4)"
      by (cases "promise_then p (Some (route_onPermission st meta (attach st resource an meta rq) resource act)) None w3")
    with cont [of p] w3 have "?Q w4 = ?Q w + 2" by simp
    with assms g Inr c show ?thesis by (simp add: handleRequest_provider)
  qed
qed

end
